theory Spec2Isabelle
  imports Complex_Main
begin

section \<open>JavaScript numbers\<close>

text \<open>
  The analysis engine (src/calc/thermo.js) computes with JavaScript numbers. A number is
  modelled as an exact real, or one of the three special values +Infinity, -Infinity and
  NaN, with the arithmetic and comparison rules of the language on the special values.
  Rounding to 53 bits, overflow of a finite result to an infinity and the sign of zero are
  not modelled: a zero is the positive zero, so a finite non-zero number divided by zero
  takes the sign of the numerator. Comparisons, the tests for \<open>null\<close> and the
  propagation of NaN and of the infinities are those of the language; the value of a finite
  result is the exact one, so nothing here bounds a rounding error.
\<close>

datatype jsnum = Fin real | PInf | NInf | NaN

instantiation jsnum :: "{plus, minus, uminus, times, divide, ord}"
begin

fun plus_jsnum :: "jsnum \<Rightarrow> jsnum \<Rightarrow> jsnum" where
  "plus_jsnum (Fin a) (Fin b) = Fin (a + b)"
| "plus_jsnum NaN y = NaN"
| "plus_jsnum x NaN = NaN"
| "plus_jsnum PInf NInf = NaN"
| "plus_jsnum NInf PInf = NaN"
| "plus_jsnum PInf y = PInf"
| "plus_jsnum x PInf = PInf"
| "plus_jsnum NInf y = NInf"
| "plus_jsnum x NInf = NInf"

fun uminus_jsnum :: "jsnum \<Rightarrow> jsnum" where
  "uminus_jsnum (Fin a) = Fin (- a)"
| "uminus_jsnum PInf = NInf"
| "uminus_jsnum NInf = PInf"
| "uminus_jsnum NaN = NaN"

definition minus_jsnum :: "jsnum \<Rightarrow> jsnum \<Rightarrow> jsnum" where
  "minus_jsnum x y = x + (- y)"

fun times_jsnum :: "jsnum \<Rightarrow> jsnum \<Rightarrow> jsnum" where
  "times_jsnum (Fin a) (Fin b) = Fin (a * b)"
| "times_jsnum NaN y = NaN"
| "times_jsnum x NaN = NaN"
| "times_jsnum PInf (Fin b) = (if b = 0 then NaN else if 0 < b then PInf else NInf)"
| "times_jsnum NInf (Fin b) = (if b = 0 then NaN else if 0 < b then NInf else PInf)"
| "times_jsnum (Fin a) PInf = (if a = 0 then NaN else if 0 < a then PInf else NInf)"
| "times_jsnum (Fin a) NInf = (if a = 0 then NaN else if 0 < a then NInf else PInf)"
| "times_jsnum PInf PInf = PInf"
| "times_jsnum PInf NInf = NInf"
| "times_jsnum NInf PInf = NInf"
| "times_jsnum NInf NInf = PInf"

fun divide_jsnum :: "jsnum \<Rightarrow> jsnum \<Rightarrow> jsnum" where
  "divide_jsnum (Fin a) (Fin b) =
     (if b = 0 then (if a = 0 then NaN else if 0 < a then PInf else NInf)
      else Fin (a / b))"
| "divide_jsnum NaN y = NaN"
| "divide_jsnum x NaN = NaN"
| "divide_jsnum (Fin a) PInf = Fin 0"
| "divide_jsnum (Fin a) NInf = Fin 0"
| "divide_jsnum PInf (Fin b) = (if 0 \<le> b then PInf else NInf)"
| "divide_jsnum NInf (Fin b) = (if 0 \<le> b then NInf else PInf)"
| "divide_jsnum PInf PInf = NaN"
| "divide_jsnum PInf NInf = NaN"
| "divide_jsnum NInf PInf = NaN"
| "divide_jsnum NInf NInf = NaN"

fun less_jsnum :: "jsnum \<Rightarrow> jsnum \<Rightarrow> bool" where
  "less_jsnum (Fin a) (Fin b) = (a < b)"
| "less_jsnum NaN y = False"
| "less_jsnum x NaN = False"
| "less_jsnum x NInf = False"
| "less_jsnum PInf y = False"
| "less_jsnum NInf y = True"
| "less_jsnum x PInf = True"

fun less_eq_jsnum :: "jsnum \<Rightarrow> jsnum \<Rightarrow> bool" where
  "less_eq_jsnum (Fin a) (Fin b) = (a \<le> b)"
| "less_eq_jsnum NaN y = False"
| "less_eq_jsnum x NaN = False"
| "less_eq_jsnum NInf y = True"
| "less_eq_jsnum x PInf = True"
| "less_eq_jsnum PInf y = False"
| "less_eq_jsnum x NInf = False"

instance ..

end

instantiation jsnum :: inverse
begin

definition inverse_jsnum :: "jsnum \<Rightarrow> jsnum" where
  "inverse_jsnum x = divide (Fin 1) x"

instance ..

end

text \<open>The strict equality \<open>===\<close> on numbers: NaN equals nothing, itself included.\<close>

definition js_eq :: "jsnum \<Rightarrow> jsnum \<Rightarrow> bool" where
  "js_eq x y = (x = y \<and> x \<noteq> NaN)"

text \<open>A number in a condition (\<open>x ? a : b\<close>): zero and NaN are false.\<close>

definition truthy :: "jsnum \<Rightarrow> bool" where
  "truthy x = (x \<noteq> Fin 0 \<and> x \<noteq> NaN)"

fun Math_log :: "jsnum \<Rightarrow> jsnum" where
  "Math_log (Fin a) = (if a < 0 then NaN else if a = 0 then NInf else Fin (ln a))"
| "Math_log PInf = PInf"
| "Math_log NInf = NaN"
| "Math_log NaN = NaN"

fun Math_exp :: "jsnum \<Rightarrow> jsnum" where
  "Math_exp (Fin a) = Fin (exp a)"
| "Math_exp PInf = PInf"
| "Math_exp NInf = Fin 0"
| "Math_exp NaN = NaN"

fun Math_sqrt :: "jsnum \<Rightarrow> jsnum" where
  "Math_sqrt (Fin a) = (if a < 0 then NaN else Fin (sqrt a))"
| "Math_sqrt PInf = PInf"
| "Math_sqrt NInf = NaN"
| "Math_sqrt NaN = NaN"

fun Math_sin :: "jsnum \<Rightarrow> jsnum" where
  "Math_sin (Fin a) = Fin (sin a)"
| "Math_sin x = NaN"

fun Math_cos :: "jsnum \<Rightarrow> jsnum" where
  "Math_cos (Fin a) = Fin (cos a)"
| "Math_cos x = NaN"

definition Math_PI :: jsnum where
  "Math_PI = Fin pi"

text \<open>
  \<open>Math.pow\<close> follows the exponentiation table of the language: a NaN exponent gives NaN,
  a zero exponent gives 1 for every base, a negative finite base with a non-integer
  exponent gives NaN, and a base of absolute value 1 with an infinite exponent gives NaN.
\<close>

definition is_odd_int :: "real \<Rightarrow> bool" where
  "is_odd_int e = (e \<in> \<int> \<and> odd \<lfloor>e\<rfloor>)"

fun Math_pow :: "jsnum \<Rightarrow> jsnum \<Rightarrow> jsnum" where
  "Math_pow x NaN = NaN"
| "Math_pow NaN (Fin e) = (if e = 0 then Fin 1 else NaN)"
| "Math_pow NaN y = NaN"
| "Math_pow PInf (Fin e) = (if e = 0 then Fin 1 else if 0 < e then PInf else Fin 0)"
| "Math_pow PInf PInf = PInf"
| "Math_pow PInf NInf = Fin 0"
| "Math_pow NInf (Fin e) =
     (if e = 0 then Fin 1
      else if 0 < e then (if is_odd_int e then NInf else PInf)
      else Fin 0)"
| "Math_pow NInf PInf = PInf"
| "Math_pow NInf NInf = Fin 0"
| "Math_pow (Fin b) PInf =
     (if b = 0 then Fin 0
      else if 1 < \<bar>b\<bar> then PInf else if \<bar>b\<bar> = 1 then NaN else Fin 0)"
| "Math_pow (Fin b) NInf =
     (if b = 0 then PInf
      else if 1 < \<bar>b\<bar> then Fin 0 else if \<bar>b\<bar> = 1 then NaN else PInf)"
| "Math_pow (Fin b) (Fin e) =
     (if e = 0 then Fin 1
      else if b = 0 then (if 0 < e then Fin 0 else PInf)
      else if 0 < b then Fin (b powr e)
      else if e \<in> \<int> then Fin (power_int b \<lfloor>e\<rfloor>)
      else NaN)"

fun Math_max :: "jsnum \<Rightarrow> jsnum \<Rightarrow> jsnum" where
  "Math_max NaN y = NaN"
| "Math_max x NaN = NaN"
| "Math_max x y = (if x < y then y else x)"

fun Math_min :: "jsnum \<Rightarrow> jsnum \<Rightarrow> jsnum" where
  "Math_min NaN y = NaN"
| "Math_min x NaN = NaN"
| "Math_min x y = (if y < x then y else x)"

text \<open>\<open>Math.round\<close> rounds to the nearest integer, a half towards +Infinity.\<close>

fun Math_round :: "jsnum \<Rightarrow> jsnum" where
  "Math_round (Fin a) = Fin (of_int \<lfloor>a + 1 / 2\<rfloor>)"
| "Math_round x = x"

section \<open>Constants and unit conversions\<close>

definition Rd :: jsnum where "Rd = Fin 287.04"
definition Rv :: jsnum where "Rv = Fin 461.5"
definition Cp :: jsnum where "Cp = Fin 1005.7"
definition Lv :: jsnum where "Lv = Fin 2501000"
definition g :: jsnum where "g = Fin 9.80665"
definition eps :: jsnum where "eps = Rd / Rv"

definition CtoK :: "jsnum \<Rightarrow> jsnum" where
  "CtoK c = c + Fin 273.15"

definition KtoC :: "jsnum \<Rightarrow> jsnum" where
  "KtoC k = k - Fin 273.15"

definition ktsToMs :: "jsnum \<Rightarrow> jsnum" where
  "ktsToMs kts = kts * Fin 0.51444"

section \<open>Profiles and vertical interpolation\<close>

text \<open>A SoundingLevel of src/parser/sounding.js; a profile is a list of levels.\<close>

record level =
  pressure :: jsnum
  height :: jsnum
  temp :: jsnum
  dewpoint :: jsnum
  windDir :: jsnum
  windSpd :: jsnum

text \<open>
  The property name that \<open>interpAtPressure\<close> receives as a string; its callers pass
  \<open>'temp'\<close>, \<open>'height'\<close>, \<open>'windDir'\<close> and \<open>'windSpd'\<close>.
\<close>

datatype field = F_temp | F_height | F_windDir | F_windSpd

fun getField :: "level \<Rightarrow> field \<Rightarrow> jsnum" where
  "getField l F_temp = temp l"
| "getField l F_height = height l"
| "getField l F_windDir = windDir l"
| "getField l F_windSpd = windSpd l"

text \<open>
  The test of \<open>interpAtPressure\<close> on one adjacent pair: the pair brackets the target,
  inclusively, in descending or in ascending order of pressure.
\<close>

definition brackets :: "level \<Rightarrow> level \<Rightarrow> jsnum \<Rightarrow> bool" where
  "brackets a b pTarget =
     ((pressure a \<ge> pTarget \<and> pressure b \<le> pTarget) \<or>
      (pressure a \<le> pTarget \<and> pressure b \<ge> pTarget))"

definition logInterp :: "level \<Rightarrow> level \<Rightarrow> jsnum \<Rightarrow> field \<Rightarrow> jsnum" where
  "logInterp a b pTarget fld =
     (let frac = (Math_log pTarget - Math_log (pressure a)) /
                 (Math_log (pressure b) - Math_log (pressure a))
      in getField a fld + frac * (getField b fld - getField a fld))"

text \<open>\<open>interpAtPressure\<close>: the first bracketing pair decides; \<open>None\<close> is \<open>null\<close>.\<close>

fun interpAtPressure :: "level list \<Rightarrow> jsnum \<Rightarrow> field \<Rightarrow> jsnum option" where
  "interpAtPressure (a # b # rest) pTarget fld =
     (if brackets a b pTarget then Some (logInterp a b pTarget fld)
      else interpAtPressure (b # rest) pTarget fld)"
| "interpAtPressure levels pTarget fld = None"

definition heightAtPressure :: "level list \<Rightarrow> jsnum \<Rightarrow> jsnum option" where
  "heightAtPressure levels pTarget = interpAtPressure levels pTarget F_height"

section \<open>The buoyancy integrator\<close>

record ppoint =
  pp_pressure :: jsnum
  pp_temp :: jsnum

text \<open>The \<open>{pressure, height}\<close> object stored in \<open>lfc\<close> and \<open>el\<close>.\<close>

record marker =
  m_pressure :: jsnum
  m_height :: jsnum

record energy =
  cape :: jsnum
  cin :: jsnum
  lfc :: "marker option"
  el :: "marker option"

text \<open>
  The body of the loop of \<open>calcCAPE_CIN\<close> up to the energy of the layer between two
  parcel points: \<open>None\<close> when one of the four interpolations returns \<open>null\<close> and the
  pair is skipped, else the energy with the two interpolated heights.
\<close>

definition layerEnergy :: "level list \<Rightarrow> ppoint \<Rightarrow> ppoint \<Rightarrow> (jsnum \<times> jsnum \<times> jsnum) option" where
  "layerEnergy levels pt1 pt2 =
     (let p1 = pp_pressure pt1; p2 = pp_pressure pt2;
          parcelT1 = CtoK (pp_temp pt1); parcelT2 = CtoK (pp_temp pt2)
      in case (interpAtPressure levels p1 F_temp, interpAtPressure levels p2 F_temp) of
           (Some envT1, Some envT2) \<Rightarrow>
             (let envTv1 = CtoK envT1; envTv2 = CtoK envT2;
                  buoy1 = (parcelT1 - envTv1) / envTv1;
                  buoy2 = (parcelT2 - envTv2) / envTv2;
                  avgBuoy = (buoy1 + buoy2) / Fin 2
              in case (heightAtPressure levels p1, heightAtPressure levels p2) of
                   (Some z1, Some z2) \<Rightarrow> Some (g * avgBuoy * (z2 - z1), z1, z2)
                 | _ \<Rightarrow> None)
         | _ \<Rightarrow> None)"

text \<open>One iteration of the loop on the accumulators \<open>cape\<close>, \<open>cin\<close>, \<open>lfc\<close>, \<open>el\<close>.\<close>

definition capeStep :: "level list \<Rightarrow> ppoint \<Rightarrow> ppoint \<Rightarrow> energy \<Rightarrow> energy" where
  "capeStep levels pt1 pt2 st =
     (case layerEnergy levels pt1 pt2 of
        None \<Rightarrow> st
      | Some (e, z1, z2) \<Rightarrow>
          if e > Fin 0 then
            st\<lparr>cape := cape st + e,
               lfc := (case lfc st of
                         None \<Rightarrow> Some \<lparr>m_pressure = pp_pressure pt1, m_height = z1\<rparr>
                       | Some l \<Rightarrow> Some l),
               el := Some \<lparr>m_pressure = pp_pressure pt2, m_height = z2\<rparr>\<rparr>
          else if lfc st = None then st\<lparr>cin := cin st + e\<rparr> else st)"

fun capeLoop :: "level list \<Rightarrow> ppoint list \<Rightarrow> energy \<Rightarrow> energy" where
  "capeLoop levels (pt1 # pt2 # rest) st =
     capeLoop levels (pt2 # rest) (capeStep levels pt1 pt2 st)"
| "capeLoop levels parcel st = st"

definition calcCAPE_CIN :: "level list \<Rightarrow> ppoint list \<Rightarrow> energy" where
  "calcCAPE_CIN levels parcel =
     (let st = capeLoop levels parcel \<lparr>cape = Fin 0, cin = Fin 0, lfc = None, el = None\<rparr>
      in \<lparr>cape = Math_max (Fin 0) (cape st), cin = Math_min (Fin 0) (cin st),
          lfc = lfc st, el = el st\<rparr>)"

section \<open>Thermodynamic primitives and adiabats\<close>

definition es :: "jsnum \<Rightarrow> jsnum" where
  "es tc = Fin 6.112 * Math_exp ((Fin 17.67 * tc) / (tc + Fin 243.5))"

definition mixingRatio :: "jsnum \<Rightarrow> jsnum \<Rightarrow> jsnum" where
  "mixingRatio tc p = (let e = es tc in (Fin 1000 * eps * e) / (p - e))"

definition virtualTemp :: "jsnum \<Rightarrow> jsnum \<Rightarrow> jsnum \<Rightarrow> jsnum" where
  "virtualTemp tc tdc p =
     (let w = mixingRatio tdc p / Fin 1000 in CtoK tc * (Fin 1 + Fin 0.61 * w))"

definition lclTemp :: "jsnum \<Rightarrow> jsnum \<Rightarrow> jsnum" where
  "lclTemp tc tdc =
     (let tk = CtoK tc; tdk = CtoK tdc
      in Fin 1 / (Fin 1 / (tdk - Fin 56) + Math_log (tk / tdk) / Fin 800) + Fin 56)"

definition thetaE :: "jsnum \<Rightarrow> jsnum \<Rightarrow> jsnum \<Rightarrow> jsnum" where
  "thetaE tc tdc p =
     (let tk = CtoK tc;
          w = mixingRatio tdc p / Fin 1000;
          theta = tk * Math_pow (Fin 1000 / p) (Fin 0.2854 * (Fin 1 - Fin 0.28 * w))
      in theta * Math_exp ((Fin 3.376 / lclTemp tc tdc - Fin 0.00254) * w * Fin 1000 *
                           (Fin 1 + Fin 0.81 * w)))"

definition lclPressure :: "jsnum \<Rightarrow> jsnum \<Rightarrow> jsnum \<Rightarrow> jsnum" where
  "lclPressure tc tdc p =
     (let tlcl = lclTemp tc tdc; tk = CtoK tc
      in p * Math_pow (tlcl / tk) (Fin 1 / Fin 0.2854))"

definition dryAdiabat :: "jsnum \<Rightarrow> jsnum \<Rightarrow> jsnum \<Rightarrow> jsnum" where
  "dryAdiabat tc p1 p2 = (let tk = CtoK tc in KtoC (tk * Math_pow (p2 / p1) (Rd / Cp)))"

text \<open>
  The loop of \<open>moistAdiabat\<close>: \<open>n\<close> Euler steps of size \<open>dp\<close> on the pair of the
  temperature \<open>t\<close> (K) and the pressure \<open>p\<close>.
\<close>

fun moistSteps :: "nat \<Rightarrow> jsnum \<Rightarrow> jsnum \<times> jsnum \<Rightarrow> jsnum \<times> jsnum" where
  "moistSteps 0 dp (t, p) = (t, p)"
| "moistSteps (Suc n) dp (t, p) =
     (let w = mixingRatio (KtoC t) p / Fin 1000;
          gamma_m = (Rd * t + Lv * w) / (Cp + (Lv * Lv * w * eps) / (Rd * t * t));
          dtdp = gamma_m / p
      in moistSteps n dp (t + dtdp * dp, p + dp))"

definition moistAdiabat :: "jsnum \<Rightarrow> jsnum \<Rightarrow> jsnum \<Rightarrow> nat \<Rightarrow> jsnum" where
  "moistAdiabat tc pStart pEnd steps =
     (let dp = (pEnd - pStart) / Fin (real steps)
      in KtoC (fst (moistSteps steps dp (CtoK tc, pStart))))"

section \<open>The parcel lifter\<close>

record lift =
  parcel :: "ppoint list"
  pLCL :: jsnum
  tLCL :: jsnum

fun liftLoop :: "jsnum \<Rightarrow> jsnum \<Rightarrow> jsnum \<Rightarrow> jsnum \<Rightarrow> level list \<Rightarrow> ppoint list" where
  "liftLoop tSfc pSfc plcl tlcl [] = []"
| "liftLoop tSfc pSfc plcl tlcl (lev # rest) =
     (if pressure lev > pSfc then liftLoop tSfc pSfc plcl tlcl rest
      else
        (let parcelT = (if pressure lev \<ge> plcl then dryAdiabat tSfc pSfc (pressure lev)
                        else moistAdiabat tlcl plcl (pressure lev) 200)
         in \<lparr>pp_pressure = pressure lev, pp_temp = parcelT\<rparr> #
            liftLoop tSfc pSfc plcl tlcl rest))"

definition liftParcel :: "jsnum \<Rightarrow> jsnum \<Rightarrow> jsnum \<Rightarrow> level list \<Rightarrow> lift" where
  "liftParcel tSfc tdSfc pSfc levels =
     (let plcl = lclPressure tSfc tdSfc pSfc;
          tlcl = KtoC (lclTemp tSfc tdSfc)
      in \<lparr>parcel = liftLoop tSfc pSfc plcl tlcl levels, pLCL = plcl, tLCL = tlcl\<rparr>)"

section \<open>Pressure at a height\<close>

text \<open>
  Reading \<open>levels[0]\<close> of an empty profile raises a TypeError; the functions that do it
  return a sum, \<open>Inl TypeError\<close> for the exception.
\<close>

datatype error = TypeError

definition bindE :: "error + 'a \<Rightarrow> ('a \<Rightarrow> error + 'b) \<Rightarrow> error + 'b" where
  "bindE m f = (case m of Inl e \<Rightarrow> Inl e | Inr x \<Rightarrow> f x)"

definition bracketsH :: "level \<Rightarrow> level \<Rightarrow> jsnum \<Rightarrow> bool" where
  "bracketsH a b target =
     ((height a \<le> target \<and> height b \<ge> target) \<or>
      (height a \<ge> target \<and> height b \<le> target))"

definition linInterpP :: "level \<Rightarrow> level \<Rightarrow> jsnum \<Rightarrow> jsnum" where
  "linInterpP a b target =
     (let frac = (target - height a) / (height b - height a)
      in pressure a + frac * (pressure b - pressure a))"

fun pahLoop :: "level list \<Rightarrow> jsnum \<Rightarrow> jsnum option" where
  "pahLoop (a # b # rest) target =
     (if bracketsH a b target then Some (linInterpP a b target)
      else pahLoop (b # rest) target)"
| "pahLoop levels target = None"

definition pressureAtHeight :: "level list \<Rightarrow> jsnum \<Rightarrow> error + jsnum" where
  "pressureAtHeight levels hTarget =
     (case levels of
        [] \<Rightarrow> Inl TypeError
      | l0 # rest \<Rightarrow>
          (let sfcH = height l0; target = sfcH + hTarget
           in case pahLoop levels target of
                Some p \<Rightarrow> Inr p
              | None \<Rightarrow> Inr (pressure (last levels))))"

section \<open>Parcel selectors\<close>

record mixed =
  ml_temp :: jsnum
  ml_dewpoint :: jsnum

text \<open>The loop of \<open>mixedLayerAvg\<close> on \<open>(tSum, tdSum, count)\<close>; it stops at the first
  level above the layer.\<close>

fun mlLoop :: "level list \<Rightarrow> jsnum \<Rightarrow> jsnum \<Rightarrow> jsnum \<times> jsnum \<times> nat \<Rightarrow> jsnum \<times> jsnum \<times> nat" where
  "mlLoop [] sfcP topP acc = acc"
| "mlLoop (lev # rest) sfcP topP (tSum, tdSum, count) =
     (if pressure lev < topP then (tSum, tdSum, count)
      else if pressure lev > sfcP then mlLoop rest sfcP topP (tSum, tdSum, count)
      else mlLoop rest sfcP topP (tSum + temp lev, tdSum + dewpoint lev, Suc count))"

definition mixedLayerAvg :: "level list \<Rightarrow> jsnum \<Rightarrow> error + mixed" where
  "mixedLayerAvg levels depth =
     (case levels of
        [] \<Rightarrow> Inl TypeError
      | l0 # rest \<Rightarrow>
          (let sfcP = pressure l0; topP = sfcP - depth
           in case mlLoop levels sfcP topP (Fin 0, Fin 0, 0) of
                (tSum, tdSum, count) \<Rightarrow>
                  if count = 0 then Inr \<lparr>ml_temp = temp l0, ml_dewpoint = dewpoint l0\<rparr>
                  else Inr \<lparr>ml_temp = tSum / Fin (real count),
                            ml_dewpoint = tdSum / Fin (real count)\<rparr>))"

fun muLoop :: "level list \<Rightarrow> jsnum \<Rightarrow> jsnum \<times> level \<Rightarrow> jsnum \<times> level" where
  "muLoop [] topP acc = acc"
| "muLoop (lev # rest) topP (maxThetaE, muLevel) =
     (if pressure lev < topP then (maxThetaE, muLevel)
      else
        (let te = thetaE (temp lev) (dewpoint lev) (pressure lev)
         in if te > maxThetaE then muLoop rest topP (te, lev)
            else muLoop rest topP (maxThetaE, muLevel)))"

definition mostUnstableParcel :: "level list \<Rightarrow> error + level" where
  "mostUnstableParcel levels =
     (case levels of
        [] \<Rightarrow> Inl TypeError
      | l0 # rest \<Rightarrow>
          (let sfcP = pressure l0; topP = sfcP - Fin 300
           in Inr (snd (muLoop levels topP (NInf, l0)))))"

section \<open>The kinematic engine\<close>

record vec =
  vec_u :: jsnum
  vec_v :: jsnum

definition windComponents :: "jsnum \<Rightarrow> jsnum \<Rightarrow> vec" where
  "windComponents dir spd =
     (let spdMs = ktsToMs spd; rad = (dir * Math_PI) / Fin 180
      in \<lparr>vec_u = (- spdMs) * Math_sin rad, vec_v = (- spdMs) * Math_cos rad\<rparr>)"

text \<open>The loop of \<open>meanWind\<close> on \<open>(uSum, vSum, wSum)\<close>.\<close>

fun mwLoop :: "level list \<Rightarrow> jsnum \<Rightarrow> jsnum \<Rightarrow> jsnum \<times> jsnum \<times> jsnum \<Rightarrow> jsnum \<times> jsnum \<times> jsnum" where
  "mwLoop [] pBot pTop acc = acc"
| "mwLoop (lev # rest) pBot pTop (uSum, vSum, wSum) =
     (if pressure lev > pBot \<or> pressure lev < pTop then mwLoop rest pBot pTop (uSum, vSum, wSum)
      else
        (let c = windComponents (windDir lev) (windSpd lev); w = pressure lev
         in mwLoop rest pBot pTop (uSum + vec_u c * w, vSum + vec_v c * w, wSum + w)))"

definition meanWind :: "level list \<Rightarrow> jsnum \<Rightarrow> jsnum \<Rightarrow> vec" where
  "meanWind levels pBot pTop =
     (case mwLoop levels pBot pTop (Fin 0, Fin 0, Fin 0) of
        (uSum, vSum, wSum) \<Rightarrow>
          if js_eq wSum (Fin 0) then \<lparr>vec_u = Fin 0, vec_v = Fin 0\<rparr>
          else \<lparr>vec_u = uSum / wSum, vec_v = vSum / wSum\<rparr>)"

record shear =
  mag :: jsnum
  sh_u :: jsnum
  sh_v :: jsnum

definition bulkShear :: "level list \<Rightarrow> jsnum \<Rightarrow> jsnum \<Rightarrow> error + shear" where
  "bulkShear levels hBot hTop =
     bindE (pressureAtHeight levels hBot) (\<lambda>pBot.
     bindE (pressureAtHeight levels hTop) (\<lambda>pTop.
       case (interpAtPressure levels pBot F_windDir, interpAtPressure levels pBot F_windSpd,
             interpAtPressure levels pTop F_windDir, interpAtPressure levels pTop F_windSpd) of
         (Some dirBot, Some spdBot, Some dirTop, Some spdTop) \<Rightarrow>
           (let bot = windComponents dirBot spdBot;
                top = windComponents dirTop spdTop;
                du = vec_u top - vec_u bot;
                dv = vec_v top - vec_v bot
            in Inr \<lparr>mag = Math_sqrt (du * du + dv * dv), sh_u = du, sh_v = dv\<rparr>)
       | _ \<Rightarrow> Inr \<lparr>mag = Fin 0, sh_u = Fin 0, sh_v = Fin 0\<rparr>))"

record bunkers =
  right :: vec
  left :: vec

definition bunkersMotion :: "level list \<Rightarrow> error + bunkers" where
  "bunkersMotion levels =
     (case levels of
        [] \<Rightarrow> Inl TypeError
      | l0 # rest \<Rightarrow>
          (let sfcP = pressure l0 in
           bindE (pressureAtHeight levels (Fin 6000)) (\<lambda>p6km.
             (let mw = meanWind levels sfcP p6km in
              bindE (bulkShear levels (Fin 0) (Fin 6000)) (\<lambda>sh.
                (let d = Fin 7.5;
                     shearMag = Math_sqrt (sh_u sh * sh_u sh + sh_v sh * sh_v sh)
                 in if js_eq shearMag (Fin 0) then
                      Inr \<lparr>right = \<lparr>vec_u = vec_u mw, vec_v = vec_v mw\<rparr>,
                           left = \<lparr>vec_u = vec_u mw, vec_v = vec_v mw\<rparr>\<rparr>
                    else
                      (let crossU = sh_v sh / shearMag;
                           crossV = (- sh_u sh) / shearMag
                       in Inr \<lparr>right = \<lparr>vec_u = vec_u mw + d * crossU,
                                         vec_v = vec_v mw + d * crossV\<rparr>,
                               left = \<lparr>vec_u = vec_u mw - d * crossU,
                                        vec_v = vec_v mw - d * crossV\<rparr>\<rparr>)))))))"

fun srhLoop :: "level list \<Rightarrow> jsnum \<Rightarrow> jsnum \<Rightarrow> jsnum \<Rightarrow> jsnum" where
  "srhLoop (a # b # rest) stormU stormV srh =
     (let wa = windComponents (windDir a) (windSpd a);
          wb = windComponents (windDir b) (windSpd b);
          sru1 = vec_u wa - stormU;
          srv1 = vec_v wa - stormV;
          sru2 = vec_u wb - stormU;
          srv2 = vec_v wb - stormV
      in srhLoop (b # rest) stormU stormV (srh + ((sru2 * srv1) - (sru1 * srv2))))"
| "srhLoop layerLevels stormU stormV srh = srh"

definition calcSRH :: "level list \<Rightarrow> jsnum \<Rightarrow> jsnum \<Rightarrow> jsnum \<Rightarrow> jsnum \<Rightarrow> error + jsnum" where
  "calcSRH levels hBot hTop stormU stormV =
     (case levels of
        [] \<Rightarrow> Inl TypeError
      | l0 # rest \<Rightarrow>
          (let sfcH = height l0;
               layerLevels = filter (\<lambda>l. let agl = height l - sfcH
                                         in agl \<ge> hBot \<and> agl \<le> hTop) levels
           in Inr (srhLoop layerLevels stormU stormV (Fin 0))))"

section \<open>Scalar diagnostics and composite indices\<close>

definition lapseRate :: "level list \<Rightarrow> jsnum \<Rightarrow> jsnum \<Rightarrow> error + jsnum" where
  "lapseRate levels hBot hTop =
     bindE (pressureAtHeight levels hBot) (\<lambda>pBot.
     bindE (pressureAtHeight levels hTop) (\<lambda>pTop.
       case (interpAtPressure levels pBot F_temp, interpAtPressure levels pTop F_temp) of
         (Some tBot, Some tTop) \<Rightarrow> Inr (- ((tTop - tBot) / ((hTop - hBot) / Fin 1000)))
       | _ \<Rightarrow> Inr (Fin 0)))"

definition lapseRate700_500 :: "level list \<Rightarrow> jsnum" where
  "lapseRate700_500 levels =
     (case (interpAtPressure levels (Fin 700) F_temp, interpAtPressure levels (Fin 500) F_temp,
            heightAtPressure levels (Fin 700), heightAtPressure levels (Fin 500)) of
        (Some t700, Some t500, Some h700, Some h500) \<Rightarrow>
          - ((t500 - t700) / ((h500 - h700) / Fin 1000))
      | _ \<Rightarrow> Fin 0)"

fun pwLoop :: "level list \<Rightarrow> jsnum \<Rightarrow> jsnum" where
  "pwLoop (a # b # rest) pw =
     (let w1 = mixingRatio (dewpoint a) (pressure a) / Fin 1000;
          w2 = mixingRatio (dewpoint b) (pressure b) / Fin 1000;
          dp = (pressure a - pressure b) * Fin 100
      in pwLoop (b # rest) (pw + ((w1 + w2) / Fin 2) * dp / g))"
| "pwLoop levels pw = pw"

definition precipitableWater :: "level list \<Rightarrow> jsnum" where
  "precipitableWater levels = pwLoop levels (Fin 0) / Fin 25.4"

definition calcSTP :: "jsnum \<Rightarrow> jsnum \<Rightarrow> jsnum \<Rightarrow> jsnum \<Rightarrow> jsnum \<Rightarrow> jsnum" where
  "calcSTP sbcape lcl srh01 shear06 cin0 =
     (let lclTerm = (if lcl < Fin 1000 then (Fin 2000 - lcl) / Fin 1000
                     else if lcl < Fin 2000 then (Fin 2000 - lcl) / Fin 1000 else Fin 0);
          shearTerm = Math_min (shear06 / Fin 20) (Fin 1.5);
          cinTerm = (if cin0 > Fin (- 50) then Fin 1
                     else if cin0 > Fin (- 150) then (Fin 200 + cin0) / Fin 150 else Fin 0);
          capeTerm = sbcape / Fin 1500;
          srhTerm = srh01 / Fin 150
      in capeTerm * lclTerm * srhTerm * shearTerm * cinTerm)"

definition calcSCP :: "jsnum \<Rightarrow> jsnum \<Rightarrow> jsnum \<Rightarrow> jsnum" where
  "calcSCP mucape srh03 shear06 =
     (let capeTerm = mucape / Fin 1000;
          srhTerm = srh03 / Fin 100;
          shearTerm = shear06 / Fin 20
      in capeTerm * srhTerm * shearTerm)"

section \<open>The orchestrator\<close>

text \<open>
  The object that \<open>analyzeSounding\<close> returns. The four LFC and EL fields hold a number
  or \<open>null\<close> (\<open>None\<close>).
\<close>

record analysis =
  r_sbcape :: jsnum
  r_sbcin :: jsnum
  r_mlcape :: jsnum
  r_mlcin :: jsnum
  r_mucape :: jsnum
  r_mucin :: jsnum
  r_lclPressure :: jsnum
  r_lclHeight :: jsnum
  r_lclTemp :: jsnum
  r_lfcPressure :: "jsnum option"
  r_lfcHeight :: "jsnum option"
  r_elPressure :: "jsnum option"
  r_elHeight :: "jsnum option"
  r_shear01 :: jsnum
  r_shear06 :: jsnum
  r_srh01 :: jsnum
  r_srh03 :: jsnum
  r_bunkers :: bunkers
  r_lr03 :: jsnum
  r_lr700_500 :: jsnum
  r_pw :: jsnum
  r_stp :: jsnum
  r_scp :: jsnum
  r_sbParcel :: "ppoint list"
  r_sfcHeight :: jsnum
  r_levels :: "level list"

text \<open>
  The body of \<open>analyzeSounding\<close> after the guard on the number of levels, for a
  profile whose first level is \<open>sfc\<close>.
\<close>

definition analyzeBody :: "level \<Rightarrow> level list \<Rightarrow> error + analysis" where
  "analyzeBody sfc levels =
     (let sfcH = height sfc;
          sbLift = liftParcel (temp sfc) (dewpoint sfc) (pressure sfc) levels;
          sbResult = calcCAPE_CIN levels (parcel sbLift)
      in
      bindE (mixedLayerAvg levels (Fin 100)) (\<lambda>ml.
        (let mlLift = liftParcel (ml_temp ml) (ml_dewpoint ml) (pressure sfc) levels;
             mlResult = calcCAPE_CIN levels (parcel mlLift)
         in
         bindE (mostUnstableParcel levels) (\<lambda>muLev.
           (let muLift = liftParcel (temp muLev) (dewpoint muLev) (pressure muLev) levels;
                muResult = calcCAPE_CIN levels (parcel muLift);
                sbLCL_hgt = heightAtPressure levels (pLCL sbLift);
                lclAGL = (case sbLCL_hgt of
                            None \<Rightarrow> Fin 0
                          | Some h \<Rightarrow> if truthy h then h - sfcH else Fin 0)
            in
            bindE (bunkersMotion levels) (\<lambda>bk.
            bindE (bulkShear levels (Fin 0) (Fin 1000)) (\<lambda>shear01.
            bindE (bulkShear levels (Fin 0) (Fin 6000)) (\<lambda>shear06.
            bindE (calcSRH levels (Fin 0) (Fin 1000) (vec_u (right bk)) (vec_v (right bk))) (\<lambda>srh01.
            bindE (calcSRH levels (Fin 0) (Fin 3000) (vec_u (right bk)) (vec_v (right bk))) (\<lambda>srh03.
            bindE (lapseRate levels (Fin 0) (Fin 3000)) (\<lambda>lr03.
              (let lr700_500 = lapseRate700_500 levels;
                   pw = precipitableWater levels;
                   stp = calcSTP (cape sbResult) lclAGL srh01 (mag shear06 * Fin 1.94384)
                           (cin sbResult);
                   scp = calcSCP (cape muResult) srh03 (mag shear06 * Fin 1.94384)
               in Inr \<lparr>
                    r_sbcape = Math_round (cape sbResult),
                    r_sbcin = Math_round (cin sbResult),
                    r_mlcape = Math_round (cape mlResult),
                    r_mlcin = Math_round (cin mlResult),
                    r_mucape = Math_round (cape muResult),
                    r_mucin = Math_round (cin muResult),
                    r_lclPressure = Math_round (pLCL sbLift),
                    r_lclHeight = Math_round lclAGL,
                    r_lclTemp = Math_round (tLCL sbLift * Fin 10) / Fin 10,
                    r_lfcPressure = (case lfc sbResult of
                                       None \<Rightarrow> None
                                     | Some l \<Rightarrow> Some (Math_round (m_pressure l))),
                    r_lfcHeight = (case lfc sbResult of
                                     None \<Rightarrow> None
                                   | Some l \<Rightarrow> Some (Math_round (m_height l - sfcH))),
                    r_elPressure = (case el sbResult of
                                      None \<Rightarrow> None
                                    | Some l \<Rightarrow> Some (Math_round (m_pressure l))),
                    r_elHeight = (case el sbResult of
                                    None \<Rightarrow> None
                                  | Some l \<Rightarrow> Some (Math_round (m_height l - sfcH))),
                    r_shear01 = Math_round (mag shear01 * Fin 1.94384),
                    r_shear06 = Math_round (mag shear06 * Fin 1.94384),
                    r_srh01 = Math_round srh01,
                    r_srh03 = Math_round srh03,
                    r_bunkers = bk,
                    r_lr03 = Math_round (lr03 * Fin 10) / Fin 10,
                    r_lr700_500 = Math_round (lr700_500 * Fin 10) / Fin 10,
                    r_pw = Math_round (pw * Fin 100) / Fin 100,
                    r_stp = Math_round (stp * Fin 10) / Fin 10,
                    r_scp = Math_round (scp * Fin 10) / Fin 10,
                    r_sbParcel = parcel sbLift,
                    r_sfcHeight = sfcH,
                    r_levels = levels\<rparr>))))))))))))"

text \<open>
  \<open>analyzeSounding\<close>: the argument is \<open>None\<close> for \<open>null\<close> or \<open>undefined\<close>, and the
  result is \<open>Inr None\<close> for the returned \<open>null\<close>.
\<close>

definition analyzeSounding :: "level list option \<Rightarrow> error + analysis option" where
  "analyzeSounding arg =
     (case arg of
        None \<Rightarrow> Inr None
      | Some levels \<Rightarrow>
          if length levels < 5 then Inr None
          else (case levels of
                  [] \<Rightarrow> Inl TypeError
                | sfc # rest \<Rightarrow> bindE (analyzeBody sfc levels) (\<lambda>r. Inr (Some r))))"

section \<open>Predicates and sample inputs of the statements\<close>

text \<open>Some adjacent pair of the parcel path has a layer energy above zero.\<close>

fun hasPositiveLayer :: "level list \<Rightarrow> ppoint list \<Rightarrow> bool" where
  "hasPositiveLayer levels (pt1 # pt2 # rest) =
     ((case layerEnergy levels pt1 pt2 of None \<Rightarrow> False | Some (e, z1, z2) \<Rightarrow> e > Fin 0)
      \<or> hasPositiveLayer levels (pt2 # rest))"
| "hasPositiveLayer levels path = False"

text \<open>
  The result of the buoyancy integrator in the words of the specification, over the layers
  (adjacent pairs of the parcel path that are not skipped) in path order: the energies of
  the positive layers; the energies of the layers before the first positive one (each is
  negative, zero or NaN); the bottom point of the first positive layer; the top point of
  the last positive layer.
\<close>

fun positiveEnergies :: "level list \<Rightarrow> ppoint list \<Rightarrow> jsnum list" where
  "positiveEnergies levels (pt1 # pt2 # rest) =
     (case layerEnergy levels pt1 pt2 of
        None \<Rightarrow> positiveEnergies levels (pt2 # rest)
      | Some (e, z1, z2) \<Rightarrow>
          if e > Fin 0 then e # positiveEnergies levels (pt2 # rest)
          else positiveEnergies levels (pt2 # rest))"
| "positiveEnergies levels path = []"

fun inhibitionEnergies :: "level list \<Rightarrow> ppoint list \<Rightarrow> jsnum list" where
  "inhibitionEnergies levels (pt1 # pt2 # rest) =
     (case layerEnergy levels pt1 pt2 of
        None \<Rightarrow> inhibitionEnergies levels (pt2 # rest)
      | Some (e, z1, z2) \<Rightarrow>
          if e > Fin 0 then [] else e # inhibitionEnergies levels (pt2 # rest))"
| "inhibitionEnergies levels path = []"

fun firstPositive :: "level list \<Rightarrow> ppoint list \<Rightarrow> marker option" where
  "firstPositive levels (pt1 # pt2 # rest) =
     (case layerEnergy levels pt1 pt2 of
        None \<Rightarrow> firstPositive levels (pt2 # rest)
      | Some (e, z1, z2) \<Rightarrow>
          if e > Fin 0 then Some \<lparr>m_pressure = pp_pressure pt1, m_height = z1\<rparr>
          else firstPositive levels (pt2 # rest))"
| "firstPositive levels path = None"

fun lastPositive :: "level list \<Rightarrow> ppoint list \<Rightarrow> marker option" where
  "lastPositive levels (pt1 # pt2 # rest) =
     (case lastPositive levels (pt2 # rest) of
        Some m \<Rightarrow> Some m
      | None \<Rightarrow>
          (case layerEnergy levels pt1 pt2 of
             None \<Rightarrow> None
           | Some (e, z1, z2) \<Rightarrow>
               if e > Fin 0 then Some \<lparr>m_pressure = pp_pressure pt2, m_height = z2\<rparr>
               else None))"
| "lastPositive levels path = None"

text \<open>A profile whose two levels share the pressure 1000 hPa, and a parcel path on it.\<close>

definition lv_dup :: "level list" where
  "lv_dup = [\<lparr>pressure = Fin 1000, height = Fin 0, temp = Fin 20, dewpoint = Fin 10,
               windDir = Fin 180, windSpd = Fin 10\<rparr>,
             \<lparr>pressure = Fin 1000, height = Fin 10, temp = Fin 20, dewpoint = Fin 10,
               windDir = Fin 180, windSpd = Fin 10\<rparr>]"

definition pc_dup :: "ppoint list" where
  "pc_dup = [\<lparr>pp_pressure = Fin 1000, pp_temp = Fin 20\<rparr>,
             \<lparr>pp_pressure = Fin 1000, pp_temp = Fin 20\<rparr>]"

text \<open>A two-level profile, a parcel warmer than it, a parcel colder than it, and two
  states of the accumulators: the initial one, and one with the LFC found.\<close>

definition lv_bot :: level where
  "lv_bot = \<lparr>pressure = Fin 1000, height = Fin 0, temp = Fin 20, dewpoint = Fin 10,
               windDir = Fin 180, windSpd = Fin 10\<rparr>"

definition lv_top :: level where
  "lv_top = \<lparr>pressure = Fin 500, height = Fin 5000, temp = Fin (- 10), dewpoint = Fin (- 20),
               windDir = Fin 180, windSpd = Fin 10\<rparr>"

definition lv_two :: "level list" where
  "lv_two = [lv_bot, lv_top]"

definition pt_warm_bot :: ppoint where "pt_warm_bot = \<lparr>pp_pressure = Fin 1000, pp_temp = Fin 30\<rparr>"
definition pt_warm_top :: ppoint where "pt_warm_top = \<lparr>pp_pressure = Fin 500, pp_temp = Fin 0\<rparr>"
definition pt_cold_bot :: ppoint where "pt_cold_bot = \<lparr>pp_pressure = Fin 1000, pp_temp = Fin 10\<rparr>"
definition pt_cold_top :: ppoint where "pt_cold_top = \<lparr>pp_pressure = Fin 500, pp_temp = Fin (-20)\<rparr>"
definition st_init :: energy where "st_init = \<lparr>cape = Fin 0, cin = Fin 0, lfc = None, el = None\<rparr>"
definition st_found :: energy where
  "st_found = \<lparr>cape = Fin 7, cin = Fin (-3), lfc = Some \<lparr>m_pressure = Fin 900, m_height = Fin 1000\<rparr>,
                el = Some \<lparr>m_pressure = Fin 800, m_height = Fin 2000\<rparr>\<rparr>"

text \<open>The adjacent pairs of a list, and the test that one of them brackets a target.\<close>

definition adjacent :: "'a list \<Rightarrow> ('a \<times> 'a) list" where
  "adjacent xs = zip xs (tl xs)"

definition someBracket :: "level list \<Rightarrow> jsnum \<Rightarrow> bool" where
  "someBracket levels pTarget = (\<exists>(a, b) \<in> set (adjacent levels). brackets a b pTarget)"

text \<open>The same test on heights, as \<open>pressureAtHeight\<close> makes it, and a two-level
  profile from 1000 hPa to 250 hPa.\<close>

definition someBracketH :: "level list \<Rightarrow> jsnum \<Rightarrow> bool" where
  "someBracketH levels target = (\<exists>(a, b) \<in> set (adjacent levels). bracketsH a b target)"

definition lv_quarter :: "level list" where
  "lv_quarter = [\<lparr>pressure = Fin 1000, height = Fin 0, temp = Fin 20, dewpoint = Fin 10,
                   windDir = Fin 180, windSpd = Fin 10\<rparr>,
                 \<lparr>pressure = Fin 250, height = Fin 10000, temp = Fin (- 50), dewpoint = Fin (- 60),
                   windDir = Fin 180, windSpd = Fin 10\<rparr>]"

text \<open>
  A regular profile has finite positive pressures with no two adjacent levels at the same
  pressure; \<open>sameWind\<close> says that every level has the wind direction \<open>d\<close> and the
  speed \<open>s\<close>.
\<close>

definition regularProfile :: "level list \<Rightarrow> bool" where
  "regularProfile levels =
     ((\<forall>l \<in> set levels. \<exists>x. 0 < x \<and> pressure l = Fin x) \<and>
      (\<forall>(a, b) \<in> set (adjacent levels). pressure a \<noteq> pressure b))"

definition sameWind :: "level list \<Rightarrow> real \<Rightarrow> real \<Rightarrow> bool" where
  "sameWind levels d s = (\<forall>l \<in> set levels. windDir l = Fin d \<and> windSpd l = Fin s)"

definition lv_mid :: level where
  "lv_mid = \<lparr>pressure = Fin 700, height = Fin 3000, temp = Fin 5, dewpoint = Fin 0,
               windDir = Fin 270, windSpd = Fin 30\<rparr>"

text \<open>
  The surface-based energy result inside \<open>analyzeSounding\<close> (\<open>sbResult\<close>), for a
  profile with a first level.
\<close>

definition sbResultOf :: "level list \<Rightarrow> energy" where
  "sbResultOf levels =
     calcCAPE_CIN levels
       (parcel (liftParcel (temp (hd levels)) (dewpoint (hd levels)) (pressure (hd levels)) levels))"

text \<open>
  The input invariants of the specification: at least five levels, positive pressures,
  dewpoint at most the temperature, wind speed at least zero, pressures non-increasing from
  the surface.
\<close>

definition inputValid :: "level list \<Rightarrow> bool" where
  "inputValid levels =
     (5 \<le> length levels \<and>
      (\<forall>l \<in> set levels. Fin 0 < pressure l \<and> dewpoint l \<le> temp l \<and> Fin 0 \<le> windSpd l) \<and>
      (\<forall>(a, b) \<in> set (adjacent levels). pressure b \<le> pressure a))"


text \<open>
  Sample profiles of four and of five levels, and a five-level profile whose first two
  levels share the pressure 1000 hPa.
\<close>

definition lv_bot2 :: level where
  "lv_bot2 = \<lparr>pressure = Fin 1000, height = Fin 10, temp = Fin 20, dewpoint = Fin 10,
                windDir = Fin 180, windSpd = Fin 10\<rparr>"

definition lv_850 :: level where
  "lv_850 = \<lparr>pressure = Fin 850, height = Fin 1500, temp = Fin 12, dewpoint = Fin 5,
               windDir = Fin 200, windSpd = Fin 20\<rparr>"

definition lv_300 :: level where
  "lv_300 = \<lparr>pressure = Fin 300, height = Fin 9000, temp = Fin (- 40), dewpoint = Fin (- 50),
               windDir = Fin 250, windSpd = Fin 50\<rparr>"


definition lv_five :: "level list" where
  "lv_five = [lv_bot, lv_850, lv_mid, lv_top, lv_300]"

definition lv_dup5 :: "level list" where
  "lv_dup5 = [lv_bot, lv_bot2, lv_850, lv_mid, lv_top]"

text \<open>
  A five-level profile with strictly decreasing pressures whose top level has the pressure
  6.112 hPa and the dewpoint 0, so that its pressure equals its saturation vapor pressure.
\<close>

definition lv_100 :: level where
  "lv_100 = \<lparr>pressure = Fin 100, height = Fin 16000, temp = Fin (- 60), dewpoint = Fin (- 70),
               windDir = Fin 260, windSpd = Fin 40\<rparr>"

definition lv_thin :: level where
  "lv_thin = \<lparr>pressure = Fin 6.112, height = Fin 35000, temp = Fin 0, dewpoint = Fin 0,
                windDir = Fin 270, windSpd = Fin 20\<rparr>"

definition lv_thin5 :: "level list" where
  "lv_thin5 = [lv_mid, lv_top, lv_300, lv_100, lv_thin]"

text \<open>
  A parcel path on the five-level sample profile: colder than the profile in its first
  layer, then a positive layer, a negative layer and a positive layer.
\<close>

definition path5 :: "ppoint list" where
  "path5 = [\<lparr>pp_pressure = Fin 1000, pp_temp = Fin 15\<rparr>,
            \<lparr>pp_pressure = Fin 850, pp_temp = Fin 10\<rparr>,
            \<lparr>pp_pressure = Fin 700, pp_temp = Fin 10\<rparr>,
            \<lparr>pp_pressure = Fin 500, pp_temp = Fin (- 20)\<rparr>,
            \<lparr>pp_pressure = Fin 300, pp_temp = Fin (- 20)\<rparr>]"

text \<open>
  A five-level profile with the wind from 0 degrees at 10 knots at every level, whose first
  two levels share the pressure 1000 hPa; and the vector of two NaN.
\<close>

definition lv_calm5 :: "level list" where
  "lv_calm5 =
     [\<lparr>pressure = Fin 1000, height = Fin 0, temp = Fin 20, dewpoint = Fin 10,
        windDir = Fin 0, windSpd = Fin 10\<rparr>,
      \<lparr>pressure = Fin 1000, height = Fin 10, temp = Fin 20, dewpoint = Fin 10,
        windDir = Fin 0, windSpd = Fin 10\<rparr>,
      \<lparr>pressure = Fin 850, height = Fin 1500, temp = Fin 12, dewpoint = Fin 5,
        windDir = Fin 0, windSpd = Fin 10\<rparr>,
      \<lparr>pressure = Fin 700, height = Fin 3000, temp = Fin 5, dewpoint = Fin 0,
        windDir = Fin 0, windSpd = Fin 10\<rparr>,
      \<lparr>pressure = Fin 500, height = Fin 5500, temp = Fin (- 10), dewpoint = Fin (- 20),
        windDir = Fin 0, windSpd = Fin 10\<rparr>]"

definition nanVec :: vec where
  "nanVec = \<lparr>vec_u = NaN, vec_v = NaN\<rparr>"

section \<open>Arithmetic on the special values\<close>

lemma plus_NaN [simp]: "x + NaN = NaN" "NaN + x = NaN"
  by (cases x; simp)+

lemma minus_NaN [simp]: "x - NaN = NaN" "NaN - x = NaN"
  by (cases x; simp add: minus_jsnum_def)+

lemma times_NaN [simp]: "x * NaN = NaN" "NaN * x = NaN"
  by (cases x; simp)+

lemma divide_NaN [simp]: "x / NaN = NaN" "NaN / x = NaN"
  by (cases x; simp)+

lemma less_NaN [simp]: "\<not> x < NaN" "\<not> NaN < x" "\<not> x \<le> NaN" "\<not> NaN \<le> x"
  by (cases x; simp)+

lemma minus_Fin [simp]: "Fin a - Fin b = Fin (a - b)"
  by (simp add: minus_jsnum_def)

section \<open>The buoyancy integrator: accumulation, LFC and EL\<close>

lemma capeStep_lfc_keep: "lfc st = Some l \<Longrightarrow> lfc (capeStep levels pt1 pt2 st) = Some l"
  by (simp add: capeStep_def split: option.splits prod.splits)

lemma capeLoop_lfc_keep: "lfc st = Some l \<Longrightarrow> lfc (capeLoop levels path st) = Some l"
proof (induction levels path st rule: capeLoop.induct)
  case (1 levels pt1 pt2 rest st)
  then show ?case by (simp add: capeStep_lfc_keep)
qed simp_all

lemma capeStep_lfc_iff:
  "(lfc (capeStep levels pt1 pt2 st) \<noteq> None) =
   (lfc st \<noteq> None \<or> (case layerEnergy levels pt1 pt2 of None \<Rightarrow> False | Some (e, z1, z2) \<Rightarrow> e > Fin 0))"
  by (auto simp add: capeStep_def split: option.splits prod.splits)

lemma capeStep_el_iff:
  "(el (capeStep levels pt1 pt2 st) \<noteq> None) =
   (el st \<noteq> None \<or> (case layerEnergy levels pt1 pt2 of None \<Rightarrow> False | Some (e, z1, z2) \<Rightarrow> e > Fin 0))"
  by (auto simp add: capeStep_def split: option.splits prod.splits)

lemma capeLoop_lfc_iff:
  "(lfc (capeLoop levels path st) \<noteq> None) = (lfc st \<noteq> None \<or> hasPositiveLayer levels path)"
proof (induction levels path st rule: capeLoop.induct)
  case (1 levels pt1 pt2 rest st)
  then show ?case by (simp only: capeLoop.simps hasPositiveLayer.simps capeStep_lfc_iff) blast
qed simp_all

lemma capeLoop_el_iff:
  "(el (capeLoop levels path st) \<noteq> None) = (el st \<noteq> None \<or> hasPositiveLayer levels path)"
proof (induction levels path st rule: capeLoop.induct)
  case (1 levels pt1 pt2 rest st)
  then show ?case by (simp only: capeLoop.simps hasPositiveLayer.simps capeStep_el_iff) blast
qed simp_all

lemma pos_add: "(Fin 0 \<le> c) \<Longrightarrow> e > Fin 0 \<Longrightarrow> Fin 0 \<le> c + e"
  by (cases c; cases e) auto

lemma nonpos_add: "c \<le> Fin 0 \<or> c = NaN \<Longrightarrow> \<not> e > Fin 0 \<Longrightarrow> (c + e \<le> Fin 0 \<or> c + e = NaN)"
  by (cases c; cases e) auto

lemma capeStep_cape_nonneg: "Fin 0 \<le> cape st \<Longrightarrow> Fin 0 \<le> cape (capeStep levels pt1 pt2 st)"
  by (auto simp add: capeStep_def pos_add split: option.splits prod.splits)

lemma capeStep_cin_nonpos: "cin st \<le> Fin 0 \<or> cin st = NaN \<Longrightarrow>
   cin (capeStep levels pt1 pt2 st) \<le> Fin 0 \<or> cin (capeStep levels pt1 pt2 st) = NaN"
  using nonpos_add by (auto simp add: capeStep_def split: option.splits prod.splits)

lemma capeLoop_cape_nonneg: "Fin 0 \<le> cape st \<Longrightarrow> Fin 0 \<le> cape (capeLoop levels path st)"
proof (induction levels path st rule: capeLoop.induct)
  case (1 levels pt1 pt2 rest st)
  then show ?case by (simp add: capeStep_cape_nonneg)
qed simp_all

lemma capeLoop_cin_nonpos: "cin st \<le> Fin 0 \<or> cin st = NaN \<Longrightarrow>
   cin (capeLoop levels path st) \<le> Fin 0 \<or> cin (capeLoop levels path st) = NaN"
proof (induction levels path st rule: capeLoop.induct)
  case (1 levels pt1 pt2 rest st)
  then show ?case using capeStep_cin_nonpos by simp
qed simp_all

lemma max0: "Fin 0 \<le> c \<Longrightarrow> Math_max (Fin 0) c = c"
  by (cases c) auto
lemma min0: "c \<le> Fin 0 \<or> c = NaN \<Longrightarrow> Math_min (Fin 0) c = c"
  by (cases c) auto

lemma interp_dup: "interpAtPressure lv_dup (Fin 1000) fld = Some NaN"
  by (simp add: lv_dup_def brackets_def logInterp_def minus_jsnum_def)

lemma capeStep_cin_keep: "lfc st \<noteq> None \<Longrightarrow> cin (capeStep levels pt1 pt2 st) = cin st"
  by (auto simp add: capeStep_def split: option.splits prod.splits)

lemma capeStep_lfc_some: "lfc st \<noteq> None \<Longrightarrow> lfc (capeStep levels pt1 pt2 st) \<noteq> None"
  by (auto simp add: capeStep_def split: option.splits prod.splits)

lemma capeLoop_cin_keep: "lfc st \<noteq> None \<Longrightarrow> cin (capeLoop levels path st) = cin st"
proof (induction levels path st rule: capeLoop.induct)
  case (1 levels pt1 pt2 rest st)
  then show ?case by (simp add: capeStep_cin_keep capeStep_lfc_some)
qed simp_all

lemma capeLoop_append:
  "capeLoop levels (pre @ pt # rest) st = capeLoop levels (pt # rest) (capeLoop levels (pre @ [pt]) st)"
proof (induction pre arbitrary: st)
  case Nil
  then show ?case by simp
next
  case (Cons a pre)
  show ?case
  proof (cases pre)
    case Nil
    then show ?thesis by simp
  next
    case (Cons b pre')
    then show ?thesis using Cons.IH by simp
  qed
qed

lemma interp_two_bot:
  "interpAtPressure lv_two (Fin 1000) F_temp = Some (Fin 20)"
  "interpAtPressure lv_two (Fin 1000) F_height = Some (Fin 0)"
  by (simp_all add: lv_two_def lv_bot_def lv_top_def brackets_def logInterp_def)

lemma interp_two_top:
  "interpAtPressure lv_two (Fin 500) F_temp = Some (Fin (- 10))"
  "interpAtPressure lv_two (Fin 500) F_height = Some (Fin 5000)"
  by (simp_all add: lv_two_def lv_bot_def lv_top_def brackets_def logInterp_def)

lemma energy_warm:
  "layerEnergy lv_two pt_warm_bot pt_warm_top =
     Some (Fin (9.80665 * ((10 / 293.15 + 10 / 263.15) / 2) * 5000), Fin 0, Fin 5000)"
  by (simp add: layerEnergy_def heightAtPressure_def interp_two_bot interp_two_top
        pt_warm_bot_def pt_warm_top_def CtoK_def g_def)

lemma energy_cold:
  "layerEnergy lv_two pt_cold_bot pt_cold_top =
     Some (Fin (9.80665 * ((- 10 / 293.15 + - 10 / 263.15) / 2) * 5000), Fin 0, Fin 5000)"
  by (simp add: layerEnergy_def heightAtPressure_def interp_two_bot interp_two_top
        pt_cold_bot_def pt_cold_top_def CtoK_def g_def)

lemma capeLoop_result:
  "capeLoop levels path st =
     \<lparr>cape = foldl plus (cape st) (positiveEnergies levels path),
      cin = (case lfc st of
               None \<Rightarrow> foldl plus (cin st) (inhibitionEnergies levels path)
             | Some l \<Rightarrow> cin st),
      lfc = (case lfc st of None \<Rightarrow> firstPositive levels path | Some l \<Rightarrow> Some l),
      el = (case lastPositive levels path of None \<Rightarrow> el st | Some m \<Rightarrow> Some m)\<rparr>"
proof (induction levels path st rule: capeLoop.induct [case_names pair empty single])
  case (pair levels pt1 pt2 rest st)
  show ?case
    by (simp only: capeLoop.simps pair.IH)
       (cases st, auto simp add: capeStep_def split: option.splits prod.splits)
next
  case (empty levels st)
  then show ?case by (cases st) (simp split: option.splits)
next
  case (single levels v st)
  then show ?case by (cases st) (simp split: option.splits)
qed

lemma calcCAPE_CIN_result:
  "calcCAPE_CIN levels path =
     \<lparr>cape = Math_max (Fin 0) (foldl plus (Fin 0) (positiveEnergies levels path)),
      cin = Math_min (Fin 0) (foldl plus (Fin 0) (inhibitionEnergies levels path)),
      lfc = firstPositive levels path,
      el = lastPositive levels path\<rparr>"
  by (simp add: calcCAPE_CIN_def Let_def capeLoop_result split: option.splits)


lemma calcCAPE_CIN_cape:
  "cape (calcCAPE_CIN levels path) = foldl plus (Fin 0) (positiveEnergies levels path)"
proof -
  let ?st0 = "\<lparr>cape = Fin 0, cin = Fin 0, lfc = None, el = None\<rparr>"
  have "Fin 0 \<le> cape (capeLoop levels path ?st0)"
    by (rule capeLoop_cape_nonneg) simp
  then have "Fin 0 \<le> foldl plus (Fin 0) (positiveEnergies levels path)"
    by (simp add: capeLoop_result)
  then show ?thesis by (simp add: calcCAPE_CIN_result max0)
qed

lemma interp_five:
  "interpAtPressure lv_five (Fin 1000) F_temp = Some (Fin 20)"
  "interpAtPressure lv_five (Fin 1000) F_height = Some (Fin 0)"
  "interpAtPressure lv_five (Fin 850) F_temp = Some (Fin 12)"
  "interpAtPressure lv_five (Fin 850) F_height = Some (Fin 1500)"
  "interpAtPressure lv_five (Fin 700) F_temp = Some (Fin 5)"
  "interpAtPressure lv_five (Fin 700) F_height = Some (Fin 3000)"
  "interpAtPressure lv_five (Fin 500) F_temp = Some (Fin (- 10))"
  "interpAtPressure lv_five (Fin 500) F_height = Some (Fin 5000)"
  "interpAtPressure lv_five (Fin 300) F_temp = Some (Fin (- 40))"
  "interpAtPressure lv_five (Fin 300) F_height = Some (Fin 9000)"
  by (simp_all add: lv_five_def lv_bot_def lv_850_def lv_mid_def lv_top_def lv_300_def
        brackets_def logInterp_def)

lemma energy_five:
  "layerEnergy lv_five \<lparr>pp_pressure = Fin 1000, pp_temp = Fin 15\<rparr>
     \<lparr>pp_pressure = Fin 850, pp_temp = Fin 10\<rparr> =
     Some (Fin (9.80665 * ((- 5 / 293.15 + - 2 / 285.15) / 2) * 1500), Fin 0, Fin 1500)"
  "layerEnergy lv_five \<lparr>pp_pressure = Fin 850, pp_temp = Fin 10\<rparr>
     \<lparr>pp_pressure = Fin 700, pp_temp = Fin 10\<rparr> =
     Some (Fin (9.80665 * ((- 2 / 285.15 + 5 / 278.15) / 2) * 1500), Fin 1500, Fin 3000)"
  "layerEnergy lv_five \<lparr>pp_pressure = Fin 700, pp_temp = Fin 10\<rparr>
     \<lparr>pp_pressure = Fin 500, pp_temp = Fin (- 20)\<rparr> =
     Some (Fin (9.80665 * ((5 / 278.15 + - 10 / 263.15) / 2) * 2000), Fin 3000, Fin 5000)"
  "layerEnergy lv_five \<lparr>pp_pressure = Fin 500, pp_temp = Fin (- 20)\<rparr>
     \<lparr>pp_pressure = Fin 300, pp_temp = Fin (- 20)\<rparr> =
     Some (Fin (9.80665 * ((- 10 / 263.15 + 20 / 233.15) / 2) * 4000), Fin 5000, Fin 9000)"
  by (simp_all add: layerEnergy_def heightAtPressure_def interp_five CtoK_def g_def)

lemma five_lists:
  "positiveEnergies lv_five path5 =
     [Fin (9.80665 * ((- 2 / 285.15 + 5 / 278.15) / 2) * 1500),
      Fin (9.80665 * ((- 10 / 263.15 + 20 / 233.15) / 2) * 4000)]"
  "inhibitionEnergies lv_five path5 = [Fin (9.80665 * ((- 5 / 293.15 + - 2 / 285.15) / 2) * 1500)]"
  "firstPositive lv_five path5 = Some \<lparr>m_pressure = Fin 850, m_height = Fin 1500\<rparr>"
  "lastPositive lv_five path5 = Some \<lparr>m_pressure = Fin 300, m_height = Fin 9000\<rparr>"
  by (simp_all add: path5_def energy_five)

text \<open>
  Claim C1. In \<open>calcCAPE_CIN\<close>, a layer (an adjacent pair of parcel points that is not
  skipped) whose energy is above zero adds its energy to CAPE, sets EL to the top point of
  the layer and, when no LFC is set yet, sets LFC to the bottom point of the layer; a layer
  of negative energy adds its energy to CIN when no LFC is set yet, and changes nothing once
  the LFC is set; an LFC that is set stays as it is to the end of the loop, and CIN with
  it; so the LFC returned is the bottom point of the first layer of positive energy.
  Over the whole path, from any state of the accumulators: CAPE grows by the energies of
  all the positive layers, added in path order; CIN, when no LFC is set, grows by the
  energies of the layers before the first positive one, and else stays; LFC, when not set,
  becomes the bottom point of the first positive layer; EL becomes the top point of the
  last positive layer. The function returns these from the initial state, CAPE floored at 0
  (which changes nothing) and CIN capped at 0.
\<close>

theorem calcCAPE_CIN_accumulation:
  "(layerEnergy levels pt1 pt2 = Some (e, z1, z2) \<and> e > Fin 0 \<longrightarrow>
      capeStep levels pt1 pt2 st =
        st\<lparr>cape := cape st + e,
           lfc := (case lfc st of
                     None \<Rightarrow> Some \<lparr>m_pressure = pp_pressure pt1, m_height = z1\<rparr>
                   | Some l \<Rightarrow> Some l),
           el := Some \<lparr>m_pressure = pp_pressure pt2, m_height = z2\<rparr>\<rparr>) \<and>
   (layerEnergy levels pt1 pt2 = Some (e, z1, z2) \<and> e < Fin 0 \<and> lfc st = None \<longrightarrow>
      capeStep levels pt1 pt2 st = st\<lparr>cin := cin st + e\<rparr>) \<and>
   (layerEnergy levels pt1 pt2 = Some (e, z1, z2) \<and> e < Fin 0 \<and> lfc st \<noteq> None \<longrightarrow>
      capeStep levels pt1 pt2 st = st) \<and>
   (lfc st = Some l \<longrightarrow>
      lfc (capeLoop levels path st) = Some l \<and> cin (capeLoop levels path st) = cin st) \<and>
   (\<not> hasPositiveLayer levels (pre @ [pt1]) \<and>
    layerEnergy levels pt1 pt2 = Some (e, z1, z2) \<and> e > Fin 0 \<longrightarrow>
      lfc (calcCAPE_CIN levels (pre @ pt1 # pt2 # rest)) =
        Some \<lparr>m_pressure = pp_pressure pt1, m_height = z1\<rparr>) \<and>
   capeLoop levels path st =
     \<lparr>cape = foldl plus (cape st) (positiveEnergies levels path),
      cin = (case lfc st of
               None \<Rightarrow> foldl plus (cin st) (inhibitionEnergies levels path)
             | Some l \<Rightarrow> cin st),
      lfc = (case lfc st of None \<Rightarrow> firstPositive levels path | Some l \<Rightarrow> Some l),
      el = (case lastPositive levels path of None \<Rightarrow> el st | Some m \<Rightarrow> Some m)\<rparr> \<and>
   calcCAPE_CIN levels path =
     \<lparr>cape = Math_max (Fin 0) (foldl plus (Fin 0) (positiveEnergies levels path)),
      cin = Math_min (Fin 0) (foldl plus (Fin 0) (inhibitionEnergies levels path)),
      lfc = firstPositive levels path,
      el = lastPositive levels path\<rparr> \<and>
   cape (calcCAPE_CIN levels path) = foldl plus (Fin 0) (positiveEnergies levels path)"
proof -
  have neg: "e < Fin 0 \<Longrightarrow> \<not> e > Fin 0"
    by (cases e) auto
  have a: "layerEnergy levels pt1 pt2 = Some (e, z1, z2) \<and> e > Fin 0 \<longrightarrow>
      capeStep levels pt1 pt2 st =
        st\<lparr>cape := cape st + e,
           lfc := (case lfc st of
                     None \<Rightarrow> Some \<lparr>m_pressure = pp_pressure pt1, m_height = z1\<rparr>
                   | Some l \<Rightarrow> Some l),
           el := Some \<lparr>m_pressure = pp_pressure pt2, m_height = z2\<rparr>\<rparr>"
    by (simp add: capeStep_def)
  have b: "layerEnergy levels pt1 pt2 = Some (e, z1, z2) \<and> e < Fin 0 \<and> lfc st = None \<longrightarrow>
      capeStep levels pt1 pt2 st = st\<lparr>cin := cin st + e\<rparr>"
    using neg by (simp add: capeStep_def)
  have c: "layerEnergy levels pt1 pt2 = Some (e, z1, z2) \<and> e < Fin 0 \<and> lfc st \<noteq> None \<longrightarrow>
      capeStep levels pt1 pt2 st = st"
    using neg by (auto simp add: capeStep_def)
  have d: "lfc st = Some l \<longrightarrow>
      lfc (capeLoop levels path st) = Some l \<and> cin (capeLoop levels path st) = cin st"
    by (simp add: capeLoop_lfc_keep capeLoop_cin_keep)
  have f: "\<not> hasPositiveLayer levels (pre @ [pt1]) \<and>
    layerEnergy levels pt1 pt2 = Some (e, z1, z2) \<and> e > Fin 0 \<longrightarrow>
      lfc (calcCAPE_CIN levels (pre @ pt1 # pt2 # rest)) =
        Some \<lparr>m_pressure = pp_pressure pt1, m_height = z1\<rparr>"
  proof (intro impI, elim conjE)
    let ?st0 = "\<lparr>cape = Fin 0, cin = Fin 0, lfc = None, el = None\<rparr>"
    let ?st1 = "capeLoop levels (pre @ [pt1]) ?st0"
    assume np: "\<not> hasPositiveLayer levels (pre @ [pt1])"
      and le: "layerEnergy levels pt1 pt2 = Some (e, z1, z2)" and pos: "e > Fin 0"
    have "lfc ?st1 = None"
      using capeLoop_lfc_iff [of levels "pre @ [pt1]" ?st0] np by simp
    then have "lfc (capeStep levels pt1 pt2 ?st1) =
        Some \<lparr>m_pressure = pp_pressure pt1, m_height = z1\<rparr>"
      using le pos by (simp add: capeStep_def)
    then have "lfc (capeLoop levels (pt1 # pt2 # rest) ?st1) =
        Some \<lparr>m_pressure = pp_pressure pt1, m_height = z1\<rparr>"
      by (simp add: capeLoop_lfc_keep)
    then show "lfc (calcCAPE_CIN levels (pre @ pt1 # pt2 # rest)) =
        Some \<lparr>m_pressure = pp_pressure pt1, m_height = z1\<rparr>"
      by (simp add: calcCAPE_CIN_def Let_def capeLoop_append [of levels pre pt1 "pt2 # rest"])
  qed
  show ?thesis
    using a b c d f capeLoop_result [of levels path st] calcCAPE_CIN_result [of levels path]
      calcCAPE_CIN_cape [of levels path]
    by (intro conjI)
qed

text \<open>
  Witness of C1. On the two-level sample profile: a positive layer from the initial state,
  a negative layer from the initial state and from a state with the LFC found, and a path
  whose first layer has energy zero and whose second layer is positive. On the five-level
  sample profile: a path of a negative, a positive, a negative and a positive layer, whose
  result has the sum of the two positive energies as CAPE, the first energy as CIN, the
  LFC at 850 hPa and the EL at 300 hPa.
\<close>

theorem calcCAPE_CIN_accumulation_witness:
  "capeStep lv_two pt_warm_bot pt_warm_top st_init =
     \<lparr>cape = Fin (9.80665 * ((10 / 293.15 + 10 / 263.15) / 2) * 5000), cin = Fin 0,
      lfc = Some \<lparr>m_pressure = Fin 1000, m_height = Fin 0\<rparr>,
      el = Some \<lparr>m_pressure = Fin 500, m_height = Fin 5000\<rparr>\<rparr> \<and>
   capeStep lv_two pt_cold_bot pt_cold_top st_init =
     st_init\<lparr>cin := Fin (9.80665 * ((- 10 / 293.15 + - 10 / 263.15) / 2) * 5000)\<rparr> \<and>
   capeStep lv_two pt_cold_bot pt_cold_top st_found = st_found \<and>
   lfc (capeLoop lv_two [pt_cold_bot, pt_cold_top] st_found) = lfc st_found \<and>
   cin (capeLoop lv_two [pt_cold_bot, pt_cold_top] st_found) = Fin (-3) \<and>
   lfc (calcCAPE_CIN lv_two ([pt_cold_bot] @ pt_warm_bot # pt_warm_top # [])) =
     Some \<lparr>m_pressure = Fin 1000, m_height = Fin 0\<rparr> \<and>
   calcCAPE_CIN lv_five path5 =
     \<lparr>cape = Fin (9.80665 * ((- 2 / 285.15 + 5 / 278.15) / 2) * 1500 +
                  9.80665 * ((- 10 / 263.15 + 20 / 233.15) / 2) * 4000),
      cin = Fin (9.80665 * ((- 5 / 293.15 + - 2 / 285.15) / 2) * 1500),
      lfc = Some \<lparr>m_pressure = Fin 850, m_height = Fin 1500\<rparr>,
      el = Some \<lparr>m_pressure = Fin 300, m_height = Fin 9000\<rparr>\<rparr> \<and>
   capeLoop lv_five path5 st_found =
     \<lparr>cape = Fin (7 + 9.80665 * ((- 2 / 285.15 + 5 / 278.15) / 2) * 1500 +
                  9.80665 * ((- 10 / 263.15 + 20 / 233.15) / 2) * 4000),
      cin = Fin (- 3),
      lfc = Some \<lparr>m_pressure = Fin 900, m_height = Fin 1000\<rparr>,
      el = Some \<lparr>m_pressure = Fin 300, m_height = Fin 9000\<rparr>\<rparr>"
proof -
  let ?ew = "Fin (9.80665 * ((10 / 293.15 + 10 / 263.15) / 2) * 5000)"
  let ?ec = "Fin (9.80665 * ((- 10 / 293.15 + - 10 / 263.15) / 2) * 5000)"
  let ?l = "\<lparr>m_pressure = Fin 900, m_height = Fin 1000\<rparr>"
  have pw: "?ew > Fin 0" by simp
  have pc: "?ec < Fin 0" by simp
  have nf: "lfc st_found \<noteq> None" "lfc st_init = None"
    by (simp_all add: st_found_def st_init_def)
  have np: "\<not> hasPositiveLayer lv_two ([pt_cold_bot] @ [pt_warm_bot])"
    by (simp add: layerEnergy_def heightAtPressure_def interp_two_bot
        pt_cold_bot_def pt_warm_bot_def CtoK_def g_def)
  note w = calcCAPE_CIN_accumulation [of lv_two pt_warm_bot pt_warm_top ?ew "Fin 0" "Fin 5000"
      st_init ?l "[]" "[pt_cold_bot]" "[]"]
  note c1 = calcCAPE_CIN_accumulation [of lv_two pt_cold_bot pt_cold_top ?ec "Fin 0" "Fin 5000"
      st_init ?l "[]" "[]" "[]"]
  note c2 = calcCAPE_CIN_accumulation [of lv_two pt_cold_bot pt_cold_top ?ec "Fin 0" "Fin 5000"
      st_found ?l "[pt_cold_bot, pt_cold_top]" "[]" "[]"]
  note g1 = calcCAPE_CIN_accumulation [of lv_five pt_cold_bot pt_cold_top ?ec "Fin 0" "Fin 5000"
      st_found ?l path5 "[]" "[]"]
  have 1: "capeStep lv_two pt_warm_bot pt_warm_top st_init =
     \<lparr>cape = ?ew, cin = Fin 0,
      lfc = Some \<lparr>m_pressure = Fin 1000, m_height = Fin 0\<rparr>,
      el = Some \<lparr>m_pressure = Fin 500, m_height = Fin 5000\<rparr>\<rparr>"
    using w [THEN conjunct1] energy_warm pw
    by (simp add: st_init_def pt_warm_bot_def pt_warm_top_def)
  have 2: "capeStep lv_two pt_cold_bot pt_cold_top st_init = st_init\<lparr>cin := ?ec\<rparr>"
    using c1 [THEN conjunct2, THEN conjunct1] energy_cold pc nf by (simp add: st_init_def)
  have 3: "capeStep lv_two pt_cold_bot pt_cold_top st_found = st_found"
    using c2 [THEN conjunct2, THEN conjunct2, THEN conjunct1] energy_cold pc nf by simp
  have 4: "lfc (capeLoop lv_two [pt_cold_bot, pt_cold_top] st_found) = lfc st_found \<and>
      cin (capeLoop lv_two [pt_cold_bot, pt_cold_top] st_found) = Fin (-3)"
    using c2 [THEN conjunct2, THEN conjunct2, THEN conjunct2, THEN conjunct1]
    by (simp add: st_found_def)
  have 5: "lfc (calcCAPE_CIN lv_two ([pt_cold_bot] @ pt_warm_bot # pt_warm_top # [])) =
     Some \<lparr>m_pressure = Fin 1000, m_height = Fin 0\<rparr>"
    using w [THEN conjunct2, THEN conjunct2, THEN conjunct2, THEN conjunct2, THEN conjunct1]
      energy_warm pw np
    by (simp add: pt_warm_bot_def)
  have 6: "calcCAPE_CIN lv_five path5 =
     \<lparr>cape = Fin (9.80665 * ((- 2 / 285.15 + 5 / 278.15) / 2) * 1500 +
                  9.80665 * ((- 10 / 263.15 + 20 / 233.15) / 2) * 4000),
      cin = Fin (9.80665 * ((- 5 / 293.15 + - 2 / 285.15) / 2) * 1500),
      lfc = Some \<lparr>m_pressure = Fin 850, m_height = Fin 1500\<rparr>,
      el = Some \<lparr>m_pressure = Fin 300, m_height = Fin 9000\<rparr>\<rparr>"
    by (simp only: g1 [THEN conjunct2, THEN conjunct2, THEN conjunct2, THEN conjunct2,
          THEN conjunct2, THEN conjunct2, THEN conjunct1] five_lists)
       simp
  have 7: "capeLoop lv_five path5 st_found =
     \<lparr>cape = Fin (7 + 9.80665 * ((- 2 / 285.15 + 5 / 278.15) / 2) * 1500 +
                  9.80665 * ((- 10 / 263.15 + 20 / 233.15) / 2) * 4000),
      cin = Fin (- 3),
      lfc = Some \<lparr>m_pressure = Fin 900, m_height = Fin 1000\<rparr>,
      el = Some \<lparr>m_pressure = Fin 300, m_height = Fin 9000\<rparr>\<rparr>"
    by (simp only: g1 [THEN conjunct2, THEN conjunct2, THEN conjunct2, THEN conjunct2,
          THEN conjunct2, THEN conjunct1] five_lists)
       (simp add: st_found_def)
  show ?thesis using 1 2 3 4 5 6 7 by (intro conjI) simp_all
qed


text \<open>
  The signs that hold for every profile and parcel path: \<open>cape\<close> is never below zero,
  and \<open>cin\<close> is zero, negative or NaN.
\<close>

lemma calcCAPE_CIN_sign:
  "Fin 0 \<le> cape (calcCAPE_CIN levels path) \<and>
   (cin (calcCAPE_CIN levels path) \<le> Fin 0 \<or> cin (calcCAPE_CIN levels path) = NaN)"
proof -
  let ?st0 = "\<lparr>cape = Fin 0, cin = Fin 0, lfc = None, el = None\<rparr>"
  have a: "Fin 0 \<le> cape (capeLoop levels path ?st0)"
    by (rule capeLoop_cape_nonneg) simp
  have b: "cin (capeLoop levels path ?st0) \<le> Fin 0 \<or> cin (capeLoop levels path ?st0) = NaN"
    by (rule capeLoop_cin_nonpos) simp
  show ?thesis using a b by (simp add: calcCAPE_CIN_def Let_def max0 min0)
qed


text \<open>
  Claim C2 (for every profile and parcel path the result has \<open>cape \<ge> 0\<close> and
  \<open>cin \<le> 0\<close>), evaluated on a profile whose two levels share one pressure: the
  interpolation divides zero by zero, the energy of the layer is NaN, it is added to
  \<open>cin\<close>, and \<open>Math.min(0, NaN)\<close> is NaN, so \<open>cin \<le> 0\<close> is false.
\<close>

theorem calcCAPE_CIN_cin_NaN: "cin (calcCAPE_CIN lv_dup pc_dup) = NaN \<and> \<not> (cin (calcCAPE_CIN lv_dup pc_dup) \<le> Fin 0)"
  by (simp add: calcCAPE_CIN_def pc_dup_def capeStep_def layerEnergy_def heightAtPressure_def interp_dup CtoK_def minus_jsnum_def g_def)


text \<open>
  Claim C10. In the result of \<open>calcCAPE_CIN\<close>, \<open>lfc\<close> is present exactly when some
  layer had positive energy, and so is \<open>el\<close>; hence both are present or both absent.
\<close>

theorem lfc_el_together:
  "(lfc (calcCAPE_CIN levels path) \<noteq> None) = hasPositiveLayer levels path \<and>
   (el (calcCAPE_CIN levels path) \<noteq> None) = hasPositiveLayer levels path \<and>
   (lfc (calcCAPE_CIN levels path) = None) = (el (calcCAPE_CIN levels path) = None)"
  using capeLoop_lfc_iff [of levels path "\<lparr>cape = Fin 0, cin = Fin 0, lfc = None, el = None\<rparr>"]
        capeLoop_el_iff [of levels path "\<lparr>cape = Fin 0, cin = Fin 0, lfc = None, el = None\<rparr>"]
  by (auto simp add: calcCAPE_CIN_def Let_def)

section \<open>The Significant Tornado Parameter\<close>

text \<open>
  Claim C9. \<open>calcSTP\<close> returns the product, in this order, of \<open>cape/1500\<close>, the LCL
  term, \<open>srh01/150\<close>, the shear term and the CIN term, where the shear term is
  \<open>Math.min(shear06/20, 1.5)\<close>, the LCL term is 0 for an LCL height of 2000 or more and
  \<open>(2000 - lcl)/1000\<close> below 2000, and the CIN term is 1 above -50, \<open>(200 + cin)/150\<close>
  above -150 and up to -50, and 0 at -150 and below: the breakpoints are those of the
  formula, with no smoothing.
\<close>

theorem calcSTP_terms:
  "\<exists>lclTerm cinTerm.
     calcSTP sbcape lcl srh01 shear06 cin0 =
       (sbcape / Fin 1500) * lclTerm * (srh01 / Fin 150) *
       Math_min (shear06 / Fin 20) (Fin 1.5) * cinTerm \<and>
     (lcl \<ge> Fin 2000 \<longrightarrow> lclTerm = Fin 0) \<and>
     (lcl < Fin 2000 \<longrightarrow> lclTerm = (Fin 2000 - lcl) / Fin 1000) \<and>
     (cin0 > Fin (- 50) \<longrightarrow> cinTerm = Fin 1) \<and>
     (cin0 > Fin (- 150) \<and> cin0 \<le> Fin (- 50) \<longrightarrow> cinTerm = (Fin 200 + cin0) / Fin 150) \<and>
     (cin0 \<le> Fin (- 150) \<longrightarrow> cinTerm = Fin 0)"
proof -
  let ?l = "if lcl < Fin 1000 then (Fin 2000 - lcl) / Fin 1000
            else if lcl < Fin 2000 then (Fin 2000 - lcl) / Fin 1000 else Fin 0"
  let ?c = "if cin0 > Fin (- 50) then Fin 1
            else if cin0 > Fin (- 150) then (Fin 200 + cin0) / Fin 150 else Fin 0"
  have l1: "lcl \<ge> Fin 2000 \<longrightarrow> ?l = Fin 0"
    by (cases lcl) auto
  have l2: "lcl < Fin 2000 \<longrightarrow> ?l = (Fin 2000 - lcl) / Fin 1000"
    by (cases lcl) auto
  have c1: "cin0 > Fin (- 50) \<longrightarrow> ?c = Fin 1"
    by simp
  have c2: "cin0 > Fin (- 150) \<and> cin0 \<le> Fin (- 50) \<longrightarrow> ?c = (Fin 200 + cin0) / Fin 150"
    by (cases cin0) auto
  have c3: "cin0 \<le> Fin (- 150) \<longrightarrow> ?c = Fin 0"
    by (cases cin0) auto
  have "calcSTP sbcape lcl srh01 shear06 cin0 =
       (sbcape / Fin 1500) * ?l * (srh01 / Fin 150) *
       Math_min (shear06 / Fin 20) (Fin 1.5) * ?c"
    by (simp add: calcSTP_def Let_def)
  then show ?thesis using l1 l2 c1 c2 c3 by blast
qed

text \<open>
  Witness of C9: an input in the middle CIN band with the shear term capped at 1.5, one with
  the LCL at 2000 m, one with weak inhibition and shear below the cap, and one at the
  threshold -150, where the CIN term drops to 0.
\<close>

theorem calcSTP_terms_witness:
  "calcSTP (Fin 1500) (Fin 1000) (Fin 150) (Fin 40) (Fin (- 100)) = Fin 1 \<and>
   calcSTP (Fin 1500) (Fin 2000) (Fin 150) (Fin 40) (Fin (- 100)) = Fin 0 \<and>
   calcSTP (Fin 1500) (Fin 1000) (Fin 150) (Fin 10) (Fin (- 10)) = Fin (1 / 2) \<and>
   calcSTP (Fin 1500) (Fin 1000) (Fin 150) (Fin 20) (Fin (- 150)) = Fin 0"
proof -
  have 1: "calcSTP (Fin 1500) (Fin 1000) (Fin 150) (Fin 40) (Fin (- 100)) = Fin 1"
    using calcSTP_terms [of "Fin 1500" "Fin 1000" "Fin 150" "Fin 40" "Fin (- 100)"]
    by (elim exE conjE) simp
  have 2: "calcSTP (Fin 1500) (Fin 2000) (Fin 150) (Fin 40) (Fin (- 100)) = Fin 0"
    using calcSTP_terms [of "Fin 1500" "Fin 2000" "Fin 150" "Fin 40" "Fin (- 100)"]
    by (elim exE conjE) simp
  have 3: "calcSTP (Fin 1500) (Fin 1000) (Fin 150) (Fin 10) (Fin (- 10)) = Fin (1 / 2)"
    using calcSTP_terms [of "Fin 1500" "Fin 1000" "Fin 150" "Fin 10" "Fin (- 10)"]
    by (elim exE conjE) simp
  have 4: "calcSTP (Fin 1500) (Fin 1000) (Fin 150) (Fin 20) (Fin (- 150)) = Fin 0"
    using calcSTP_terms [of "Fin 1500" "Fin 1000" "Fin 150" "Fin 20" "Fin (- 150)"]
    by (elim exE conjE) simp
  show ?thesis using 1 2 3 4 by (intro conjI)
qed

section \<open>Interpolation at a pressure\<close>

lemma adjacent_simps [simp]:
  "adjacent [] = []" "adjacent [x] = []" "adjacent (x # y # zs) = (x, y) # adjacent (y # zs)"
  by (simp_all add: adjacent_def)

lemma less_not_ge: "(x::jsnum) < y \<Longrightarrow> \<not> y \<le> x"
  by (cases x; cases y) auto

lemma le_total: "(x::jsnum) \<noteq> NaN \<Longrightarrow> y \<noteq> NaN \<Longrightarrow> x \<le> y \<or> y \<le> x"
  by (cases x; cases y) auto

lemma le_not_NaN: "(x::jsnum) \<le> y \<Longrightarrow> x \<noteq> NaN \<and> y \<noteq> NaN"
  by (cases x; cases y) auto

lemma interp_None_iff:
  "(interpAtPressure levels pTarget fld = None) = (\<not> someBracket levels pTarget)"
  by (induction levels pTarget fld rule: interpAtPressure.induct)
     (auto simp add: someBracket_def)

lemma interp_first:
  "\<not> someBracket (pre @ [a]) pTarget \<Longrightarrow> brackets a b pTarget \<Longrightarrow>
   interpAtPressure (pre @ a # b # post) pTarget fld = Some (logInterp a b pTarget fld)"
proof (induction pre)
  case Nil
  then show ?case by simp
next
  case (Cons x pre)
  show ?case
  proof (cases pre)
    case Nil
    then show ?thesis using Cons.prems by (simp add: someBracket_def)
  next
    case (Cons y pre')
    then show ?thesis using Cons.IH Cons.prems by (simp add: someBracket_def)
  qed
qed

lemma interp_outside:
  "(\<forall>l \<in> set levels. pTarget < pressure l) \<or> (\<forall>l \<in> set levels. pressure l < pTarget) \<Longrightarrow>
   interpAtPressure levels pTarget fld = None"
  by (induction levels pTarget fld rule: interpAtPressure.induct)
     (auto simp add: brackets_def dest: less_not_ge)

lemma interp_up:
  "pressure a \<le> pTarget \<Longrightarrow> \<exists>l \<in> set rest. pTarget \<le> pressure l \<Longrightarrow>
   \<forall>l \<in> set (a # rest). pressure l \<noteq> NaN \<Longrightarrow>
   interpAtPressure (a # rest) pTarget fld \<noteq> None"
proof (induction rest arbitrary: a)
  case Nil
  then show ?case by simp
next
  case (Cons b rest)
  show ?case
  proof (cases "brackets a b pTarget")
    case True
    then show ?thesis by simp
  next
    case False
    then have nb: "\<not> pTarget \<le> pressure b" using Cons.prems(1) by (simp add: brackets_def)
    have "pressure b \<noteq> NaN" "pTarget \<noteq> NaN"
      using Cons.prems(3) le_not_NaN [OF Cons.prems(1)] by simp_all
    then have b: "pressure b \<le> pTarget" using nb le_total by blast
    have "\<exists>l \<in> set rest. pTarget \<le> pressure l" using Cons.prems(2) nb by auto
    then have "interpAtPressure (b # rest) pTarget fld \<noteq> None"
      using Cons.IH [OF b] Cons.prems(3) by simp
    then show ?thesis using False by simp
  qed
qed

lemma interp_down:
  "pTarget \<le> pressure a \<Longrightarrow> \<exists>l \<in> set rest. pressure l \<le> pTarget \<Longrightarrow>
   \<forall>l \<in> set (a # rest). pressure l \<noteq> NaN \<Longrightarrow>
   interpAtPressure (a # rest) pTarget fld \<noteq> None"
proof (induction rest arbitrary: a)
  case Nil
  then show ?case by simp
next
  case (Cons b rest)
  show ?case
  proof (cases "brackets a b pTarget")
    case True
    then show ?thesis by simp
  next
    case False
    then have nb: "\<not> pressure b \<le> pTarget" using Cons.prems(1) by (simp add: brackets_def)
    have "pressure b \<noteq> NaN" "pTarget \<noteq> NaN"
      using Cons.prems(3) le_not_NaN [OF Cons.prems(1)] by simp_all
    then have b: "pTarget \<le> pressure b" using nb le_total by blast
    have "\<exists>l \<in> set rest. pressure l \<le> pTarget" using Cons.prems(2) nb by auto
    then have "interpAtPressure (b # rest) pTarget fld \<noteq> None"
      using Cons.IH [OF b] Cons.prems(3) by simp
    then show ?thesis using False by simp
  qed
qed

lemma interp_inside:
  assumes len: "2 \<le> length levels"
    and nn: "\<forall>l \<in> set levels. pressure l \<noteq> NaN"
    and lo: "\<exists>l \<in> set levels. pressure l \<le> pTarget"
    and hi: "\<exists>l \<in> set levels. pTarget \<le> pressure l"
  shows "interpAtPressure levels pTarget fld \<noteq> None"
proof -
  obtain a b rest where lv: "levels = a # b # rest"
    using len by (cases levels; cases "tl levels") auto
  have pn: "pTarget \<noteq> NaN" using lo le_not_NaN by blast
  have an: "pressure a \<noteq> NaN" and bn: "pressure b \<noteq> NaN" using nn lv by simp_all
  show ?thesis
  proof (cases "brackets a b pTarget")
    case True
    then show ?thesis using lv by simp
  next
    case False
    have ab: "pressure a \<le> pTarget \<or> pTarget \<le> pressure a" using le_total an pn by blast
    have bb: "pressure b \<le> pTarget \<or> pTarget \<le> pressure b" using le_total bn pn by blast
    from ab show ?thesis
    proof
      assume a: "pressure a \<le> pTarget"
      then have "\<not> pTarget \<le> pressure a" using False bb by (auto simp add: brackets_def)
      then have "\<exists>l \<in> set (b # rest). pTarget \<le> pressure l" using hi lv by auto
      then show ?thesis using interp_up [OF a] nn lv by blast
    next
      assume a: "pTarget \<le> pressure a"
      then have "\<not> pressure a \<le> pTarget" using False bb by (auto simp add: brackets_def)
      then have "\<exists>l \<in> set (b # rest). pressure l \<le> pTarget" using lo lv by auto
      then show ?thesis using interp_down [OF a] nn lv by blast
    qed
  qed
qed

lemma logInterp_Fin:
  assumes "0 < pa" "0 < pb" "0 < t" "pa \<noteq> pb"
    and "pressure a = Fin pa" "pressure b = Fin pb"
    and "getField a fld = Fin va" "getField b fld = Fin vb"
  shows "logInterp a b (Fin t) fld = Fin (va + (ln t - ln pa) / (ln pb - ln pa) * (vb - va))"
  using assms by (simp add: logInterp_def)


lemma interp_Some:
  "interpAtPressure levels pTarget fld = Some v \<Longrightarrow>
   \<exists>(a, b) \<in> set (adjacent levels). brackets a b pTarget \<and> v = logInterp a b pTarget fld"
  by (induction levels pTarget fld rule: interpAtPressure.induct)
     (auto split: if_splits)

text \<open>
  Claim C6. \<open>interpAtPressure\<close> returns \<open>null\<close> exactly when no adjacent pair of levels
  brackets the target pressure (inclusively, in either order). So it returns \<open>null\<close> for
  a target below every pressure of the profile or above every one; it returns the
  interpolation on the first bracketing pair; for a profile of two or more levels whose
  pressures are numbers (not NaN) and a target within the range of the pressures it returns
  the interpolation on a bracketing pair; and on finite positive pressures the
  interpolation is linear in the logarithm of the pressure.
\<close>

theorem interpAtPressure_bracketing:
  "(interpAtPressure levels pTarget fld = None) = (\<not> someBracket levels pTarget) \<and>
   ((\<forall>l \<in> set levels. pTarget < pressure l) \<or> (\<forall>l \<in> set levels. pressure l < pTarget) \<longrightarrow>
      interpAtPressure levels pTarget fld = None) \<and>
   (\<not> someBracket (pre @ [a]) pTarget \<and> brackets a b pTarget \<longrightarrow>
      interpAtPressure (pre @ a # b # post) pTarget fld = Some (logInterp a b pTarget fld)) \<and>
   (2 \<le> length levels \<and> (\<forall>l \<in> set levels. pressure l \<noteq> NaN) \<and>
    (\<exists>l \<in> set levels. pressure l \<le> pTarget) \<and> (\<exists>l \<in> set levels. pTarget \<le> pressure l) \<longrightarrow>
      (\<exists>(x, y) \<in> set (adjacent levels). brackets x y pTarget \<and>
         interpAtPressure levels pTarget fld = Some (logInterp x y pTarget fld))) \<and>
   (0 < pa \<and> 0 < pb \<and> 0 < t \<and> pa \<noteq> pb \<and> pressure a = Fin pa \<and> pressure b = Fin pb \<and>
    getField a fld = Fin va \<and> getField b fld = Fin vb \<longrightarrow>
      logInterp a b (Fin t) fld = Fin (va + (ln t - ln pa) / (ln pb - ln pa) * (vb - va)))"
proof -
  have 1: "(interpAtPressure levels pTarget fld = None) = (\<not> someBracket levels pTarget)"
    by (rule interp_None_iff)
  have 2: "(\<forall>l \<in> set levels. pTarget < pressure l) \<or> (\<forall>l \<in> set levels. pressure l < pTarget) \<longrightarrow>
      interpAtPressure levels pTarget fld = None"
    using interp_outside by blast
  have 3: "\<not> someBracket (pre @ [a]) pTarget \<and> brackets a b pTarget \<longrightarrow>
      interpAtPressure (pre @ a # b # post) pTarget fld = Some (logInterp a b pTarget fld)"
    using interp_first by blast
  have 4: "2 \<le> length levels \<and> (\<forall>l \<in> set levels. pressure l \<noteq> NaN) \<and>
    (\<exists>l \<in> set levels. pressure l \<le> pTarget) \<and> (\<exists>l \<in> set levels. pTarget \<le> pressure l) \<longrightarrow>
      (\<exists>(x, y) \<in> set (adjacent levels). brackets x y pTarget \<and>
         interpAtPressure levels pTarget fld = Some (logInterp x y pTarget fld))"
  proof (intro impI, elim conjE)
    assume "2 \<le> length levels" "\<forall>l \<in> set levels. pressure l \<noteq> NaN"
      "\<exists>l \<in> set levels. pressure l \<le> pTarget" "\<exists>l \<in> set levels. pTarget \<le> pressure l"
    then have "interpAtPressure levels pTarget fld \<noteq> None" by (rule interp_inside)
    then obtain v where v: "interpAtPressure levels pTarget fld = Some v" by auto
    from interp_Some [OF v] show "\<exists>(x, y) \<in> set (adjacent levels). brackets x y pTarget \<and>
         interpAtPressure levels pTarget fld = Some (logInterp x y pTarget fld)"
      using v by auto
  qed
  have 5: "0 < pa \<and> 0 < pb \<and> 0 < t \<and> pa \<noteq> pb \<and> pressure a = Fin pa \<and> pressure b = Fin pb \<and>
    getField a fld = Fin va \<and> getField b fld = Fin vb \<longrightarrow>
      logInterp a b (Fin t) fld = Fin (va + (ln t - ln pa) / (ln pb - ln pa) * (vb - va))"
    using logInterp_Fin by blast
  show ?thesis using 1 2 3 4 5 by (intro conjI)
qed

text \<open>
  Witness of C6 on the two-level sample profile (1000 hPa and 500 hPa): targets above and
  below the range, and the targets 700 hPa and 600 hPa inside it.
\<close>

theorem interpAtPressure_bracketing_witness:
  "interpAtPressure lv_two (Fin 1100) F_temp = None \<and>
   interpAtPressure lv_two (Fin 400) F_temp = None \<and>
   interpAtPressure lv_two (Fin 700) F_temp =
     Some (Fin (20 + (ln 700 - ln 1000) / (ln 500 - ln 1000) * (- 10 - 20))) \<and>
   interpAtPressure lv_two (Fin 600) F_windSpd \<noteq> None"
proof -
  note t4 = interpAtPressure_bracketing [of lv_two "Fin 600" F_windSpd "[]" lv_bot lv_top "[]"
      1000 500 600 10 10]
  have h: "2 \<le> length lv_two" "\<forall>l \<in> set lv_two. pressure l \<noteq> NaN"
      "\<exists>l \<in> set lv_two. pressure l \<le> Fin 600" "\<exists>l \<in> set lv_two. Fin 600 \<le> pressure l"
    by (simp_all add: lv_two_def lv_bot_def lv_top_def)
  have "\<exists>(x, y) \<in> set (adjacent lv_two). brackets x y (Fin 600) \<and>
      interpAtPressure lv_two (Fin 600) F_windSpd = Some (logInterp x y (Fin 600) F_windSpd)"
    using t4 h by blast
  then have 4: "interpAtPressure lv_two (Fin 600) F_windSpd \<noteq> None" by auto
  note t1 = interpAtPressure_bracketing [of "lv_two" "Fin 1100" F_temp "[]" lv_bot lv_top "[]"
      1000 500 700 20 "- 10"]
  note t2 = interpAtPressure_bracketing [of "lv_two" "Fin 400" F_temp "[]" lv_bot lv_top "[]"
      1000 500 700 20 "- 10"]
  note t3 = interpAtPressure_bracketing [of "lv_two" "Fin 700" F_temp "[]" lv_bot lv_top "[]"
      1000 500 700 20 "- 10"]
  have 1: "interpAtPressure lv_two (Fin 1100) F_temp = None"
    using t1 by (simp add: lv_two_def lv_bot_def lv_top_def)
  have 2: "interpAtPressure lv_two (Fin 400) F_temp = None"
    using t2 by (simp add: lv_two_def lv_bot_def lv_top_def)
  have b: "brackets lv_bot lv_top (Fin 700)" "\<not> someBracket ([] @ [lv_bot]) (Fin 700)"
    by (simp_all add: brackets_def someBracket_def lv_bot_def lv_top_def)
  have f: "pressure lv_bot = Fin 1000" "pressure lv_top = Fin 500"
      "getField lv_bot F_temp = Fin 20" "getField lv_top F_temp = Fin (- 10)"
    by (simp_all add: lv_bot_def lv_top_def)
  have "interpAtPressure ([] @ lv_bot # lv_top # []) (Fin 700) F_temp =
      Some (logInterp lv_bot lv_top (Fin 700) F_temp)"
    using t3 b by blast
  moreover have "logInterp lv_bot lv_top (Fin 700) F_temp =
      Fin (20 + (ln 700 - ln 1000) / (ln 500 - ln 1000) * (- 10 - 20))"
    using t3 f by simp
  ultimately have 3: "interpAtPressure lv_two (Fin 700) F_temp =
     Some (Fin (20 + (ln 700 - ln 1000) / (ln 500 - ln 1000) * (- 10 - 20)))"
    by (simp add: lv_two_def)
  show ?thesis using 1 2 3 4 by (intro conjI)
qed

section \<open>Height at a pressure and pressure at a height\<close>

lemma ln_half_frac: "(ln 500 - ln 1000) / (ln 250 - ln 1000) = (1 / 2 :: real)"
proof -
  have a: "ln (500::real) = ln 1000 + ln (1 / 2)"
    using ln_mult [of "1000::real" "1 / 2"] by simp
  have b: "ln (250::real) = ln 500 + ln (1 / 2)"
    using ln_mult [of "500::real" "1 / 2"] by simp
  have c: "ln (1 / 2 :: real) \<noteq> 0" by simp
  have "(ln 500 - ln 1000) / (ln 250 - ln 1000) = ln (1 / 2) / (2 * ln (1 / 2 :: real))"
    by (simp only: a b) simp
  also have "\<dots> = 1 / 2" using c by simp
  finally show ?thesis .
qed

text \<open>
  Claim C5 (the inversion utilities interpolate height linearly in pressure and clamp to the
  topmost level beyond the extent of the profile) fails for \<open>heightAtPressure\<close>: between
  1000 hPa at 0 m and 250 hPa at 10000 m it returns 5000 m at 500 hPa, the interpolation in
  the logarithm of the pressure, where the interpolation linear in pressure is 6666.67 m;
  and at 100 hPa, above the profile, it returns \<open>null\<close>, not the height of the top level.
\<close>

theorem heightAtPressure_not_linear_not_clamped:
  "heightAtPressure lv_quarter (Fin 500) = Some (Fin 5000) \<and>
   heightAtPressure lv_quarter (Fin 500) \<noteq>
     Some (Fin (0 + (500 - 1000) / (250 - 1000) * (10000 - 0))) \<and>
   heightAtPressure lv_quarter (Fin 100) = None"
proof -
  have 1: "heightAtPressure lv_quarter (Fin 500) = Some (Fin 5000)"
    by (simp add: heightAtPressure_def lv_quarter_def brackets_def logInterp_def ln_half_frac)
  have 3: "heightAtPressure lv_quarter (Fin 100) = None"
    by (simp add: heightAtPressure_def lv_quarter_def brackets_def)
  show ?thesis using 3 by (simp add: 1)
qed

lemma pah_None_iff: "(pahLoop levels target = None) = (\<not> someBracketH levels target)"
  by (induction levels target rule: pahLoop.induct) (auto simp add: someBracketH_def)

lemma pah_first:
  "\<not> someBracketH (pre @ [a]) target \<Longrightarrow> bracketsH a b target \<Longrightarrow>
   pahLoop (pre @ a # b # post) target = Some (linInterpP a b target)"
proof (induction pre)
  case Nil
  then show ?case by simp
next
  case (Cons x pre)
  show ?case
  proof (cases pre)
    case Nil
    then show ?thesis using Cons.prems by (simp add: someBracketH_def)
  next
    case (Cons y pre')
    then show ?thesis using Cons.IH Cons.prems by (simp add: someBracketH_def)
  qed
qed

lemma pressureAtHeight_clamp:
  "\<not> someBracketH (l0 # rest) (height l0 + hTarget) \<Longrightarrow>
   pressureAtHeight (l0 # rest) hTarget = Inr (pressure (last (l0 # rest)))"
  using pah_None_iff [of "l0 # rest" "height l0 + hTarget"]
  by (simp add: pressureAtHeight_def Let_def)

lemma pressureAtHeight_first:
  assumes "levels = pre @ a # b # post" and "levels = l0 # rest"
    and "\<not> someBracketH (pre @ [a]) (height l0 + hTarget)"
    and "bracketsH a b (height l0 + hTarget)"
  shows "pressureAtHeight levels hTarget = Inr (linInterpP a b (height l0 + hTarget))"
proof -
  have "pahLoop levels (height l0 + hTarget) = Some (linInterpP a b (height l0 + hTarget))"
    using pah_first [OF assms(3,4)] assms(1) by simp
  then show ?thesis using assms(2) by (simp add: pressureAtHeight_def Let_def)
qed

lemma linInterpP_Fin:
  assumes "ha \<noteq> hb" "height a = Fin ha" "height b = Fin hb"
    "pressure a = Fin pa" "pressure b = Fin pb"
  shows "linInterpP a b (Fin t) = Fin (pa + (t - ha) / (hb - ha) * (pb - pa))"
  using assms by (simp add: linInterpP_def)

text \<open>
  Claim C5 as amended. \<open>heightAtPressure\<close> is \<open>interpAtPressure\<close> on the height: it
  returns \<open>null\<close> when no adjacent pair brackets the target pressure, and else the
  interpolation of the height on the first bracketing pair, linear in the logarithm of the
  pressure. \<open>pressureAtHeight\<close> raises on an empty profile; on the first adjacent pair
  whose heights bracket the target height (the height of the first level plus the
  argument) it returns the pressure interpolated linearly in height; and when no pair
  brackets the target it returns the pressure of the last level.
\<close>

theorem height_pressure_inversion:
  "heightAtPressure levels pTarget = interpAtPressure levels pTarget F_height \<and>
   (\<not> someBracket levels pTarget \<longrightarrow> heightAtPressure levels pTarget = None) \<and>
   (\<not> someBracket (pre @ [a]) pTarget \<and> brackets a b pTarget \<longrightarrow>
      heightAtPressure (pre @ a # b # post) pTarget = Some (logInterp a b pTarget F_height)) \<and>
   (0 < pa \<and> 0 < pb \<and> 0 < t \<and> pa \<noteq> pb \<and> pressure a = Fin pa \<and> pressure b = Fin pb \<and>
    height a = Fin ha \<and> height b = Fin hb \<longrightarrow>
      logInterp a b (Fin t) F_height = Fin (ha + (ln t - ln pa) / (ln pb - ln pa) * (hb - ha))) \<and>
   pressureAtHeight [] hTarget = Inl TypeError \<and>
   (\<not> someBracketH (l0 # rest) (height l0 + hTarget) \<longrightarrow>
      pressureAtHeight (l0 # rest) hTarget = Inr (pressure (last (l0 # rest)))) \<and>
   (l0 # rest = pre @ a # b # post \<and> \<not> someBracketH (pre @ [a]) (height l0 + hTarget) \<and>
    bracketsH a b (height l0 + hTarget) \<longrightarrow>
      pressureAtHeight (l0 # rest) hTarget = Inr (linInterpP a b (height l0 + hTarget))) \<and>
   (ha \<noteq> hb \<and> height a = Fin ha \<and> height b = Fin hb \<and>
    pressure a = Fin pa \<and> pressure b = Fin pb \<longrightarrow>
      linInterpP a b (Fin t) = Fin (pa + (t - ha) / (hb - ha) * (pb - pa)))"
proof -
  have 1: "heightAtPressure levels pTarget = interpAtPressure levels pTarget F_height"
    by (simp add: heightAtPressure_def)
  have 2: "\<not> someBracket levels pTarget \<longrightarrow> heightAtPressure levels pTarget = None"
    by (simp add: heightAtPressure_def interp_None_iff)
  have 3: "\<not> someBracket (pre @ [a]) pTarget \<and> brackets a b pTarget \<longrightarrow>
      heightAtPressure (pre @ a # b # post) pTarget = Some (logInterp a b pTarget F_height)"
    by (simp add: heightAtPressure_def interp_first)
  have 4: "0 < pa \<and> 0 < pb \<and> 0 < t \<and> pa \<noteq> pb \<and> pressure a = Fin pa \<and> pressure b = Fin pb \<and>
    height a = Fin ha \<and> height b = Fin hb \<longrightarrow>
      logInterp a b (Fin t) F_height = Fin (ha + (ln t - ln pa) / (ln pb - ln pa) * (hb - ha))"
    using logInterp_Fin [of pa pb t a b F_height ha hb] by simp
  have 5: "pressureAtHeight [] hTarget = Inl TypeError"
    by (simp add: pressureAtHeight_def)
  have 6: "\<not> someBracketH (l0 # rest) (height l0 + hTarget) \<longrightarrow>
      pressureAtHeight (l0 # rest) hTarget = Inr (pressure (last (l0 # rest)))"
    using pressureAtHeight_clamp by blast
  have 7: "l0 # rest = pre @ a # b # post \<and> \<not> someBracketH (pre @ [a]) (height l0 + hTarget) \<and>
    bracketsH a b (height l0 + hTarget) \<longrightarrow>
      pressureAtHeight (l0 # rest) hTarget = Inr (linInterpP a b (height l0 + hTarget))"
    using pressureAtHeight_first [of "l0 # rest" pre a b post l0 rest hTarget] by blast
  have 8: "ha \<noteq> hb \<and> height a = Fin ha \<and> height b = Fin hb \<and>
    pressure a = Fin pa \<and> pressure b = Fin pb \<longrightarrow>
      linInterpP a b (Fin t) = Fin (pa + (t - ha) / (hb - ha) * (pb - pa))"
    using linInterpP_Fin by blast
  show ?thesis using 1 2 3 4 5 6 7 8 by (intro conjI)
qed

text \<open>
  Witness of the amended C5 on the two-level sample profile: a pressure above the profile, a
  pressure inside it, a height above the profile and a height inside it.
\<close>

theorem height_pressure_inversion_witness:
  "heightAtPressure lv_two (Fin 400) = None \<and>
   heightAtPressure lv_two (Fin 700) =
     Some (Fin (0 + (ln 700 - ln 1000) / (ln 500 - ln 1000) * (5000 - 0))) \<and>
   pressureAtHeight lv_two (Fin 9000) = Inr (Fin 500) \<and>
   pressureAtHeight lv_two (Fin 2500) = Inr (Fin 750)"
proof -
  note t1 = height_pressure_inversion [of lv_two "Fin 400" "[]" lv_bot lv_top "[]"
      1000 500 700 0 5000 "Fin 9000" lv_bot "[lv_top]"]
  note t2 = height_pressure_inversion [of lv_two "Fin 700" "[]" lv_bot lv_top "[]"
      1000 500 700 0 5000 "Fin 9000" lv_bot "[lv_top]"]
  note t3 = height_pressure_inversion [of lv_two "Fin 700" "[]" lv_bot lv_top "[]"
      1000 500 2500 0 5000 "Fin 2500" lv_bot "[lv_top]"]
  have f: "pressure lv_bot = Fin 1000" "pressure lv_top = Fin 500"
      "height lv_bot = Fin 0" "height lv_top = Fin 5000"
    by (simp_all add: lv_bot_def lv_top_def)
  have 1: "heightAtPressure lv_two (Fin 400) = None"
    using t1 by (simp add: lv_two_def someBracket_def brackets_def f)
  have b: "brackets lv_bot lv_top (Fin 700)" "\<not> someBracket ([] @ [lv_bot]) (Fin 700)"
    by (simp_all add: brackets_def someBracket_def f)
  have "heightAtPressure ([] @ lv_bot # lv_top # []) (Fin 700) =
      Some (logInterp lv_bot lv_top (Fin 700) F_height)"
    using t2 b by blast
  moreover have "logInterp lv_bot lv_top (Fin 700) F_height =
      Fin (0 + (ln 700 - ln 1000) / (ln 500 - ln 1000) * (5000 - 0))"
    using t2 f by simp
  ultimately have 2: "heightAtPressure lv_two (Fin 700) =
     Some (Fin (0 + (ln 700 - ln 1000) / (ln 500 - ln 1000) * (5000 - 0)))"
    by (simp add: lv_two_def)
  have "\<not> someBracketH (lv_bot # [lv_top]) (height lv_bot + Fin 9000)"
    by (simp add: someBracketH_def bracketsH_def f)
  then have "pressureAtHeight (lv_bot # [lv_top]) (Fin 9000) = Inr (pressure (last (lv_bot # [lv_top])))"
    using t1 by blast
  then have 3: "pressureAtHeight lv_two (Fin 9000) = Inr (Fin 500)"
    by (simp add: lv_two_def f)
  have h: "lv_bot # [lv_top] = [] @ lv_bot # lv_top # []"
      "\<not> someBracketH ([] @ [lv_bot]) (height lv_bot + Fin 2500)"
      "bracketsH lv_bot lv_top (height lv_bot + Fin 2500)"
    by (simp_all add: someBracketH_def bracketsH_def f)
  have "pressureAtHeight (lv_bot # [lv_top]) (Fin 2500) =
      Inr (linInterpP lv_bot lv_top (height lv_bot + Fin 2500))"
    using t3 h by blast
  moreover have "linInterpP lv_bot lv_top (Fin 2500) = Fin (1000 + (2500 - 0) / (5000 - 0) * (500 - 1000))"
    using t3 f by simp
  ultimately have 4: "pressureAtHeight lv_two (Fin 2500) = Inr (Fin 750)"
    by (simp add: lv_two_def f)
  show ?thesis using 1 2 3 4 by (intro conjI)
qed

section \<open>Bunkers storm motion\<close>

lemma pressureAtHeight_total: "\<exists>p. pressureAtHeight (l0 # rest) hTarget = Inr p"
  by (simp add: pressureAtHeight_def Let_def split: option.splits)

text \<open>
  With a bulk shear of magnitude exactly zero, both movers are the mean wind between the
  surface pressure and the pressure at 6 km.
\<close>

lemma bunkersMotion_zero:
  assumes sh: "bulkShear (l0 # rest) (Fin 0) (Fin 6000) = Inr sh"
    and z: "js_eq (Math_sqrt (sh_u sh * sh_u sh + sh_v sh * sh_v sh)) (Fin 0)"
    and p: "pressureAtHeight (l0 # rest) (Fin 6000) = Inr p6km"
  shows "bunkersMotion (l0 # rest) =
     Inr \<lparr>right = meanWind (l0 # rest) (pressure l0) p6km,
          left = meanWind (l0 # rest) (pressure l0) p6km\<rparr>"
  using z by (simp add: bunkersMotion_def bindE_def sh p Let_def)

lemma bulkShear_mag:
  "bulkShear levels hBot hTop = Inr sh \<Longrightarrow>
   mag sh = Math_sqrt (sh_u sh * sh_u sh + sh_v sh * sh_v sh)"
  by (auto simp add: bulkShear_def bindE_def Let_def split: sum.splits option.splits)

section \<open>The orchestrator: the guard and the returned record\<close>

lemma calcCAPE_CIN_lfc_el:
  "(lfc (calcCAPE_CIN levels path) = None) = (el (calcCAPE_CIN levels path) = None)"
  using capeLoop_lfc_iff [of levels path "\<lparr>cape = Fin 0, cin = Fin 0, lfc = None, el = None\<rparr>"]
        capeLoop_el_iff [of levels path "\<lparr>cape = Fin 0, cin = Fin 0, lfc = None, el = None\<rparr>"]
  by (auto simp add: calcCAPE_CIN_def Let_def)

lemma mixedLayerAvg_total: "\<exists>m. mixedLayerAvg (l0 # rest) depth = Inr m"
  by (simp add: mixedLayerAvg_def Let_def split: prod.splits)

lemma mostUnstableParcel_total: "\<exists>m. mostUnstableParcel (l0 # rest) = Inr m"
  by (simp add: mostUnstableParcel_def Let_def)

lemma bulkShear_total: "\<exists>s. bulkShear (l0 # rest) hBot hTop = Inr s"
proof -
  obtain pBot where pb: "pressureAtHeight (l0 # rest) hBot = Inr pBot"
    using pressureAtHeight_total by blast
  obtain pTop where pt: "pressureAtHeight (l0 # rest) hTop = Inr pTop"
    using pressureAtHeight_total by blast
  show ?thesis
    unfolding bulkShear_def bindE_def pb pt
    by (simp add: Let_def split: option.splits)
qed

lemma bunkersMotion_total: "\<exists>b. bunkersMotion (l0 # rest) = Inr b"
proof -
  obtain p where p: "pressureAtHeight (l0 # rest) (Fin 6000) = Inr p"
    using pressureAtHeight_total by blast
  obtain s where s: "bulkShear (l0 # rest) (Fin 0) (Fin 6000) = Inr s"
    using bulkShear_total by blast
  show ?thesis by (simp add: bunkersMotion_def bindE_def p s Let_def)
qed

lemma calcSRH_total: "\<exists>v. calcSRH (l0 # rest) hBot hTop stormU stormV = Inr v"
  by (simp add: calcSRH_def Let_def)

lemma lapseRate_total: "\<exists>v. lapseRate (l0 # rest) hBot hTop = Inr v"
proof -
  obtain pBot where pb: "pressureAtHeight (l0 # rest) hBot = Inr pBot"
    using pressureAtHeight_total by blast
  obtain pTop where pt: "pressureAtHeight (l0 # rest) hTop = Inr pTop"
    using pressureAtHeight_total by blast
  show ?thesis
    unfolding lapseRate_def bindE_def pb pt
    by (simp add: Let_def split: option.splits)
qed

lemma analyzeBody_fields:
  "\<exists>r. analyzeBody sfc (sfc # rest) = Inr r \<and>
     r_levels r = sfc # rest \<and> r_sfcHeight r = height sfc \<and>
     r_sbParcel r = parcel (liftParcel (temp sfc) (dewpoint sfc) (pressure sfc) (sfc # rest)) \<and>
     r_sbcape r = Math_round (cape (sbResultOf (sfc # rest))) \<and>
     r_sbcin r = Math_round (cin (sbResultOf (sfc # rest))) \<and>
     (r_lfcPressure r = None) = (lfc (sbResultOf (sfc # rest)) = None) \<and>
     (r_lfcHeight r = None) = (lfc (sbResultOf (sfc # rest)) = None) \<and>
     (r_elPressure r = None) = (el (sbResultOf (sfc # rest)) = None) \<and>
     (r_elHeight r = None) = (el (sbResultOf (sfc # rest)) = None) \<and>
     r_pw r = Math_round (precipitableWater (sfc # rest) * Fin 100) / Fin 100 \<and>
     bunkersMotion (sfc # rest) = Inr (r_bunkers r)"
proof -
  let ?lv = "sfc # rest"
  obtain ml where ml: "mixedLayerAvg ?lv (Fin 100) = Inr ml"
    using mixedLayerAvg_total by blast
  obtain mu where mu: "mostUnstableParcel ?lv = Inr mu"
    using mostUnstableParcel_total by blast
  obtain bk where bk: "bunkersMotion ?lv = Inr bk"
    using bunkersMotion_total by blast
  obtain s1 where s1: "bulkShear ?lv (Fin 0) (Fin 1000) = Inr s1"
    using bulkShear_total by blast
  obtain s6 where s6: "bulkShear ?lv (Fin 0) (Fin 6000) = Inr s6"
    using bulkShear_total by blast
  obtain h1 where h1: "calcSRH ?lv (Fin 0) (Fin 1000) (vec_u (right bk)) (vec_v (right bk)) = Inr h1"
    using calcSRH_total by blast
  obtain h3 where h3: "calcSRH ?lv (Fin 0) (Fin 3000) (vec_u (right bk)) (vec_v (right bk)) = Inr h3"
    using calcSRH_total by blast
  obtain lr where lr: "lapseRate ?lv (Fin 0) (Fin 3000) = Inr lr"
    using lapseRate_total by blast
  show ?thesis
    by (simp add: analyzeBody_def bindE_def Let_def ml mu bk s1 s6 h1 h3 lr sbResultOf_def
          split: option.splits)
qed

lemma analyzeBody_total: "\<exists>r. analyzeBody sfc (sfc # rest) = Inr r"
  using analyzeBody_fields [of sfc rest] by (elim exE conjE, intro exI)

lemma analyzeBody_fieldsD:
  "analyzeBody sfc (sfc # rest) = Inr r \<Longrightarrow>
     r_levels r = sfc # rest \<and> r_sfcHeight r = height sfc \<and>
     r_sbParcel r = parcel (liftParcel (temp sfc) (dewpoint sfc) (pressure sfc) (sfc # rest)) \<and>
     r_sbcape r = Math_round (cape (sbResultOf (sfc # rest))) \<and>
     r_sbcin r = Math_round (cin (sbResultOf (sfc # rest))) \<and>
     (r_lfcPressure r = None) = (lfc (sbResultOf (sfc # rest)) = None) \<and>
     (r_lfcHeight r = None) = (lfc (sbResultOf (sfc # rest)) = None) \<and>
     (r_elPressure r = None) = (el (sbResultOf (sfc # rest)) = None) \<and>
     (r_elHeight r = None) = (el (sbResultOf (sfc # rest)) = None) \<and>
     r_pw r = Math_round (precipitableWater (sfc # rest) * Fin 100) / Fin 100 \<and>
     bunkersMotion (sfc # rest) = Inr (r_bunkers r)"
  using analyzeBody_fields [of sfc rest] by (elim exE conjE) simp




lemma capeStep_cin_NaN: "cin st = NaN \<Longrightarrow> cin (capeStep levels pt1 pt2 st) = NaN"
  by (auto simp add: capeStep_def split: option.splits prod.splits)

lemma capeLoop_cin_NaN: "cin st = NaN \<Longrightarrow> cin (capeLoop levels path st) = NaN"
proof (induction levels path st rule: capeLoop.induct)
  case (1 levels pt1 pt2 rest st)
  then show ?case by (simp add: capeStep_cin_NaN)
qed simp_all

lemma layerEnergy_NaN:
  assumes "\<And>fld. interpAtPressure levels (pp_pressure pt1) fld = Some NaN"
    and "pp_pressure pt2 = pp_pressure pt1"
  shows "layerEnergy levels pt1 pt2 = Some (NaN, NaN, NaN)"
  using assms by (simp add: layerEnergy_def heightAtPressure_def Let_def CtoK_def)

lemma interp_dup5: "interpAtPressure lv_dup5 (Fin 1000) fld = Some NaN"
  by (simp add: lv_dup5_def lv_bot_def lv_bot2_def brackets_def logInterp_def)

lemma liftLoop_dup5:
  "\<exists>t0 t1 tail. liftLoop tSfc (Fin 1000) plcl tlcl lv_dup5 =
     \<lparr>pp_pressure = Fin 1000, pp_temp = t0\<rparr> # \<lparr>pp_pressure = Fin 1000, pp_temp = t1\<rparr> # tail"
  by (simp add: lv_dup5_def lv_bot_def lv_bot2_def Let_def)

lemma sbResultOf_dup5: "cin (sbResultOf lv_dup5) = NaN"
proof -
  let ?st0 = "\<lparr>cape = Fin 0, cin = Fin 0, lfc = None, el = None\<rparr>"
  have hd: "hd lv_dup5 = lv_bot" by (simp add: lv_dup5_def)
  have ps: "pressure lv_bot = Fin 1000" by (simp add: lv_bot_def)
  obtain t0 t1 tail where ll:
    "liftLoop (temp lv_bot) (Fin 1000) (lclPressure (temp lv_bot) (dewpoint lv_bot) (Fin 1000))
       (KtoC (lclTemp (temp lv_bot) (dewpoint lv_bot))) lv_dup5 =
       \<lparr>pp_pressure = Fin 1000, pp_temp = t0\<rparr> # \<lparr>pp_pressure = Fin 1000, pp_temp = t1\<rparr> # tail"
    using liftLoop_dup5 by blast
  have pc: "parcel (liftParcel (temp lv_bot) (dewpoint lv_bot) (Fin 1000) lv_dup5) =
       \<lparr>pp_pressure = Fin 1000, pp_temp = t0\<rparr> # \<lparr>pp_pressure = Fin 1000, pp_temp = t1\<rparr> # tail"
    using ll by (simp add: liftParcel_def Let_def)
  have le: "layerEnergy lv_dup5 \<lparr>pp_pressure = Fin 1000, pp_temp = t0\<rparr>
      \<lparr>pp_pressure = Fin 1000, pp_temp = t1\<rparr> = Some (NaN, NaN, NaN)"
    by (rule layerEnergy_NaN) (simp_all add: interp_dup5)
  have "cin (capeStep lv_dup5 \<lparr>pp_pressure = Fin 1000, pp_temp = t0\<rparr>
      \<lparr>pp_pressure = Fin 1000, pp_temp = t1\<rparr> ?st0) = NaN"
    by (simp add: capeStep_def le)
  then have "cin (capeLoop lv_dup5 (\<lparr>pp_pressure = Fin 1000, pp_temp = t0\<rparr> #
      \<lparr>pp_pressure = Fin 1000, pp_temp = t1\<rparr> # tail) ?st0) = NaN"
    by (simp add: capeLoop_cin_NaN)
  then show ?thesis
    by (simp add: sbResultOf_def hd ps pc calcCAPE_CIN_def Let_def)
qed

lemma es_Fin:
  assumes "td \<le> 0" "- 243.5 < td"
  shows "\<exists>e. es (Fin td) = Fin e \<and> 0 < e \<and> e \<le> 6.112"
proof -
  have "17.67 * td / (td + 243.5) \<le> 0"
    using assms by (simp add: divide_nonpos_pos mult_nonneg_nonpos)
  then have "exp (17.67 * td / (td + 243.5)) \<le> 1" by simp
  then have "6.112 * exp (17.67 * td / (td + 243.5)) \<le> 6.112" by simp
  moreover have "0 < 6.112 * exp (17.67 * td / (td + 243.5))" by simp
  moreover have "es (Fin td) = Fin (6.112 * exp (17.67 * td / (td + 243.5)))"
    using assms by (simp add: es_def)
  ultimately show ?thesis by blast
qed

lemma mixingRatio_Fin:
  assumes "td \<le> 0" "- 243.5 < td" "6.112 < p"
  shows "\<exists>w. mixingRatio (Fin td) (Fin p) / Fin 1000 = Fin w"
proof -
  obtain e where e: "es (Fin td) = Fin e" "0 < e" "e \<le> 6.112"
    using es_Fin [OF assms(1,2)] by blast
  then have "p - e \<noteq> 0" using assms(3) by simp
  then show ?thesis using e by (simp add: mixingRatio_def Let_def eps_def Rd_def Rv_def)
qed

lemma mixingRatio_thin: "mixingRatio (Fin 0) (Fin (764 / 125)) / Fin 1000 = PInf"
  by (simp add: mixingRatio_def Let_def es_def eps_def Rd_def Rv_def)

lemma precipitableWater_thin5: "precipitableWater lv_thin5 = PInf"
proof -
  obtain w1 where w1: "mixingRatio (Fin 0) (Fin 700) / Fin 1000 = Fin w1"
    using mixingRatio_Fin [of 0 700] by auto
  obtain w2 where w2: "mixingRatio (Fin (- 20)) (Fin 500) / Fin 1000 = Fin w2"
    using mixingRatio_Fin [of "- 20" 500] by auto
  obtain w3 where w3: "mixingRatio (Fin (- 50)) (Fin 300) / Fin 1000 = Fin w3"
    using mixingRatio_Fin [of "- 50" 300] by auto
  obtain w4 where w4: "mixingRatio (Fin (- 70)) (Fin 100) / Fin 1000 = Fin w4"
    using mixingRatio_Fin [of "- 70" 100] by auto
  show ?thesis
    by (simp add: precipitableWater_def lv_thin5_def lv_mid_def lv_top_def lv_300_def lv_100_def
          lv_thin_def Let_def w1 w2 w3 w4 mixingRatio_thin g_def)
qed

lemma thin5_pw:
  "map_sum id (map_option r_pw) (analyzeSounding (Some lv_thin5)) = Inr (Some PInf)"
proof -
  obtain r where r1: "analyzeBody lv_mid [lv_mid, lv_top, lv_300, lv_100, lv_thin] = Inr r"
    using analyzeBody_total by blast
  note r = r1 analyzeBody_fieldsD [OF r1]
  have "r_pw r = PInf"
    using r(2) precipitableWater_thin5 by (simp add: lv_thin5_def)
  then show ?thesis
    using r(1) by (simp add: analyzeSounding_def lv_thin5_def bindE_def)
qed

lemma thin5_valid: "inputValid lv_thin5 \<and> regularProfile lv_thin5"
proof -
  have "\<exists>x>0. x * 125 = (764::real)" by (rule exI [of _ "764 / 125"]) simp
  then show ?thesis
    by (simp add: inputValid_def regularProfile_def lv_thin5_def lv_mid_def lv_top_def lv_300_def
        lv_100_def lv_thin_def)
qed

text \<open>The profile with two levels at 1000 hPa satisfies the input invariants too.\<close>

lemma dup5_valid: "inputValid lv_dup5"
  by (simp add: inputValid_def lv_dup5_def lv_bot_def lv_bot2_def lv_850_def lv_mid_def lv_top_def)

text \<open>
  Claim C4 (on a profile that satisfies the input invariants no field of the result is NaN
  or Infinity), evaluated on two profiles that satisfy the invariants. On the five-level
  profile whose first two levels share the pressure 1000 hPa, the interpolation divides zero by zero
  and the field \<open>sbcin\<close> of the result is NaN. On the five-level profile with strictly
  decreasing pressures whose top level has its pressure equal to its saturation vapor
  pressure, \<open>mixingRatio\<close> divides by zero and the field \<open>pw\<close> of the result is
  +Infinity.
\<close>

theorem analyzeSounding_NaN_Infinity:
  "map_sum id (map_option r_sbcin) (analyzeSounding (Some lv_dup5)) = Inr (Some NaN) \<and>
   map_sum id (map_option r_pw) (analyzeSounding (Some lv_thin5)) = Inr (Some PInf)"
proof -
  obtain r where r1: "analyzeBody lv_bot [lv_bot, lv_bot2, lv_850, lv_mid, lv_top] = Inr r"
    using analyzeBody_total by blast
  note r = r1 analyzeBody_fieldsD [OF r1]
  have "r_sbcin r = NaN"
    using r(2) sbResultOf_dup5 by (simp add: lv_dup5_def)
  then have "map_sum id (map_option r_sbcin) (analyzeSounding (Some lv_dup5)) = Inr (Some NaN)"
    using r(1) by (simp add: analyzeSounding_def lv_dup5_def bindE_def)
  then show ?thesis using thin5_pw by simp
qed

section \<open>Bunkers storm motion on a profile with the same wind at every level\<close>

lemma pah_calm5:
  "pressureAtHeight lv_calm5 (Fin 0) = Inr (Fin 1000)"
  "pressureAtHeight lv_calm5 (Fin 6000) = Inr (Fin 500)"
  by (simp_all add: pressureAtHeight_def lv_calm5_def bracketsH_def linInterpP_def)

lemma interp_calm5:
  "interpAtPressure lv_calm5 (Fin 1000) F_windDir = Some NaN"
  "interpAtPressure lv_calm5 (Fin 1000) F_windSpd = Some NaN"
  "interpAtPressure lv_calm5 (Fin 500) F_windDir = Some (Fin 0)"
  "interpAtPressure lv_calm5 (Fin 500) F_windSpd = Some (Fin 10)"
  by (simp_all add: lv_calm5_def brackets_def logInterp_def)

lemma bulkShear_calm5:
  "bulkShear lv_calm5 (Fin 0) (Fin 6000) = Inr \<lparr>mag = NaN, sh_u = NaN, sh_v = NaN\<rparr>"
  by (simp add: bulkShear_def bindE_def pah_calm5 interp_calm5 Let_def windComponents_def
        ktsToMs_def Math_PI_def)

lemma meanWind_calm5:
  "meanWind lv_calm5 (Fin 1000) (Fin 500) = \<lparr>vec_u = Fin 0, vec_v = Fin (- 5.1444)\<rparr>"
  by (simp add: meanWind_def lv_calm5_def windComponents_def ktsToMs_def Math_PI_def js_eq_def)

lemma bunkersMotion_calm5:
  "bunkersMotion lv_calm5 = Inr \<lparr>right = nanVec, left = nanVec\<rparr>"
proof -
  have "lv_calm5 \<noteq> []" by (simp add: lv_calm5_def)
  then obtain l0 rest where lv: "lv_calm5 = l0 # rest" by (cases lv_calm5) auto
  have p0: "pressure l0 = Fin 1000" using lv by (auto simp add: lv_calm5_def)
  show ?thesis
    using pah_calm5 bulkShear_calm5 meanWind_calm5
    unfolding lv
    by (simp add: bunkersMotion_def bindE_def Let_def p0 js_eq_def nanVec_def)
qed

text \<open>The sample profile satisfies the input invariants and has one wind at every level.\<close>

lemma calm5_valid: "inputValid lv_calm5 \<and> sameWind lv_calm5 0 10"
  by (simp add: inputValid_def sameWind_def lv_calm5_def)

text \<open>
  Claim C8 (on a profile with identical wind at every level the bulk shear is zero and both
  movers equal the mean wind), evaluated on a five-level profile that satisfies the input
  invariants, with the same wind at every level and the first two levels at the same
  pressure: the interpolation of the wind at the surface pressure divides zero by zero,
  the bulk shear is NaN, \<open>NaN === 0\<close> is false, and both movers are NaN, in
  \<open>bunkersMotion\<close> and in the record of \<open>analyzeSounding\<close>, while the mean wind is
  the common wind of the levels.
\<close>

theorem bunkersMotion_same_wind_NaN:
  "bulkShear lv_calm5 (Fin 0) (Fin 6000) = Inr \<lparr>mag = NaN, sh_u = NaN, sh_v = NaN\<rparr> \<and>
   meanWind lv_calm5 (Fin 1000) (Fin 500) = \<lparr>vec_u = Fin 0, vec_v = Fin (- 5.1444)\<rparr> \<and>
   bunkersMotion lv_calm5 = Inr \<lparr>right = nanVec, left = nanVec\<rparr> \<and>
   nanVec \<noteq> meanWind lv_calm5 (Fin 1000) (Fin 500) \<and>
   map_sum id (map_option r_bunkers) (analyzeSounding (Some lv_calm5)) =
     Inr (Some \<lparr>right = nanVec, left = nanVec\<rparr>)"
proof -
  have "lv_calm5 \<noteq> []" "5 \<le> length lv_calm5" by (simp_all add: lv_calm5_def)
  then obtain l0 rest where lv: "lv_calm5 = l0 # rest" by (cases lv_calm5) auto
  obtain r where r1: "analyzeBody l0 (l0 # rest) = Inr r"
    using analyzeBody_total by blast
  have "bunkersMotion (l0 # rest) = Inr (r_bunkers r)"
    using analyzeBody_fieldsD [OF r1] by simp
  then have "r_bunkers r = \<lparr>right = nanVec, left = nanVec\<rparr>"
    using bunkersMotion_calm5 by (simp add: lv)
  moreover have "analyzeSounding (Some lv_calm5) = Inr (Some r)"
    using r1 \<open>5 \<le> length lv_calm5\<close> by (simp add: analyzeSounding_def bindE_def lv)
  ultimately have a: "map_sum id (map_option r_bunkers) (analyzeSounding (Some lv_calm5)) =
     Inr (Some \<lparr>right = nanVec, left = nanVec\<rparr>)"
    by simp
  have n: "nanVec \<noteq> meanWind lv_calm5 (Fin 1000) (Fin 500)"
    by (simp add: meanWind_calm5 nanVec_def)
  show ?thesis
    using bulkShear_calm5 meanWind_calm5 bunkersMotion_calm5 n a by (intro conjI)
qed

end
